theory Spec2Isabelle
  imports Main "HOL-Library.Word"
begin

section \<open>Strings\<close>

text \<open>
  A JavaScript string is a sequence of UTF-16 code units: the transport's buffer and the
  argument of \<open>handleData\<close> are such strings. What the process writes arrives as \<open>Buffer\<close>s
  of bytes. Server names, tool names, paths and error messages are only compared and
  concatenated, so they are plain \<open>string\<close>s.
\<close>

type_synonym jsstring = "16 word list"

type_synonym byte = "8 word"


text \<open>\<open>s.indexOf(c)\<close>: the first position of \<open>c\<close>, \<open>None\<close> for the source's \<open>-1\<close>.\<close>

fun indexOf :: "jsstring \<Rightarrow> 16 word \<Rightarrow> nat option" where
  "indexOf [] c = None"
| "indexOf (x # xs) c = (if x = c then Some 0 else map_option Suc (indexOf xs c))"



text \<open>
  The code units \<open>String.prototype.trim\<close> strips: ECMAScript's WhiteSpace and
  LineTerminator.
\<close>

definition isWhiteSpace :: "16 word \<Rightarrow> bool" where
  "isWhiteSpace c \<longleftrightarrow>
     c \<in> {0x09, 0x0A, 0x0B, 0x0C, 0x0D, 0x20, 0xA0, 0x1680, 0x2028, 0x2029, 0x202F,
          0x205F, 0x3000, 0xFEFF}
     \<or> (0x2000 \<le> c \<and> c \<le> 0x200A)"

definition trim :: "jsstring \<Rightarrow> jsstring" where
  "trim s = rev (dropWhile isWhiteSpace (rev (dropWhile isWhiteSpace s)))"

section \<open>Decoding a buffer\<close>

text \<open>
  \<open>Buffer.prototype.toString()\<close> decodes the bytes as UTF-8, on their own: an ill-formed
  sequence, and a sequence that the end of the buffer cuts short, become U+FFFD. The
  decoder's state is the code point collected so far, the number of continuation bytes
  still needed, and the bounds for the next continuation byte.
\<close>

type_synonym utf8_state = "nat \<times> nat \<times> nat \<times> nat"

definition utf8_initial :: utf8_state where
  "utf8_initial = (0, 0, 0x80, 0xBF)"

definition replacement :: "16 word" where
  "replacement = 0xFFFD"

text \<open>The UTF-16 code units of a code point: itself, or a surrogate pair.\<close>

definition codeUnits :: "nat \<Rightarrow> jsstring" where
  "codeUnits cp =
     (if cp < 0x10000 then [of_nat cp]
      else [of_nat (0xD800 + (cp - 0x10000) div 0x400),
            of_nat (0xDC00 + (cp - 0x10000) mod 0x400)])"

text \<open>A byte read when no continuation byte is needed.\<close>

definition utf8_lead :: "byte \<Rightarrow> utf8_state \<times> jsstring" where
  "utf8_lead b =
     (let v = unat b
      in if v \<le> 0x7F then (utf8_initial, [of_nat v])
         else if 0xC2 \<le> v \<and> v \<le> 0xDF then ((v mod 0x20, 1, 0x80, 0xBF), [])
         else if 0xE0 \<le> v \<and> v \<le> 0xEF then
           ((v mod 0x10, 2, if v = 0xE0 then 0xA0 else 0x80, if v = 0xED then 0x9F else 0xBF), [])
         else if 0xF0 \<le> v \<and> v \<le> 0xF4 then
           ((v mod 8, 3, if v = 0xF0 then 0x90 else 0x80, if v = 0xF4 then 0x8F else 0xBF), [])
         else (utf8_initial, [replacement]))"

text \<open>
  One byte. A byte that cannot continue the sequence ends it with U+FFFD and is read
  again as the start of the next one.
\<close>

definition utf8_step :: "utf8_state \<Rightarrow> byte \<Rightarrow> utf8_state \<times> jsstring" where
  "utf8_step st b =
     (case st of
        (cp, needed, lo, hi) \<Rightarrow>
          if needed = 0 then utf8_lead b
          else if unat b < lo \<or> hi < unat b then
            (let (st', out) = utf8_lead b in (st', replacement # out))
          else
            (let cp' = cp * 64 + unat b mod 64
             in if needed = 1 then (utf8_initial, codeUnits cp')
                else ((cp', needed - 1, 0x80, 0xBF), [])))"

fun utf8_run :: "utf8_state \<Rightarrow> byte list \<Rightarrow> utf8_state \<times> jsstring" where
  "utf8_run st [] = (st, [])"
| "utf8_run st (b # bs) =
     (let (st1, out) = utf8_step st b;
          (st2, outs) = utf8_run st1 bs
      in (st2, out @ outs))"

definition toString :: "byte list \<Rightarrow> jsstring" where
  "toString bs =
     (let (st, out) = utf8_run utf8_initial bs
      in if st = utf8_initial then out else out @ [replacement])"


section \<open>Managed processes\<close>

type_synonym name = string
type_synonym path = string

text \<open>
  Objects that several owners share and mutate live in a store: \<open>pid\<close> names a
  \<open>ChildProcess\<close> object (the live-process map and every transport bound to the process
  hold the same object), \<open>cid\<close> names a \<open>Client\<close> object.
\<close>

type_synonym pid = nat
type_synonym cid = nat

datatype signal = SIGTERM | SIGKILL

text \<open>
  The listeners the program registers on a child process: \<open>deployServer\<close>'s exit handler
  (it closes over the name and the persistence flag) and the exit handler of the
  transport of a client.
\<close>

datatype listener = DeployExit name bool | TransportExit cid

text \<open>
  A \<open>ChildProcess\<close> object together with the operating-system process behind it.
  \<open>killed\<close> is Node's property of that name: it is set when \<open>kill()\<close> has delivered a
  signal, and says nothing about whether the process has terminated. \<open>exited\<close> holds once
  the process has terminated and its exit event has been emitted. \<open>doomed\<close> holds when the
  process is about to terminate (it received a signal it does not survive, or it stops on
  its own): its exit event is emitted at the next suspension point of the program.
  \<open>ignoresSIGTERM\<close> and \<open>killThrows\<close> describe the environment: a program that does not
  terminate on SIGTERM, a platform on which \<open>kill()\<close> raises.
\<close>

record ChildProcess =
  killed :: bool
  exited :: bool
  doomed :: bool
  ignoresSIGTERM :: bool
  killThrows :: bool
  exitListeners :: "listener list"
  errorListeners :: "cid list"

text \<open>\<open>ServerProcess\<close> (process.ts); \<open>stdin\<close> and \<open>stdout\<close> are the streams of \<open>process\<close>.\<close>

record ServerProcess =
  process :: pid
  name :: name
  source_path :: path
  deployed_at :: int

section \<open>The process transport\<close>

text \<open>
  \<open>ProcessTransport\<close> (transport.ts). The three callbacks are optional slots set by the
  client; the model records which slots are set and writes every call of a callback
  into a trace of notifications. Callbacks are the RPC client's own and return normally.
  \<open>exitHandler\<close> says whether the field of that name holds a handler (\<open>start\<close> sets it).
\<close>

datatype 'm notification = OnMessage 'm | OnError string | OnClose

record ProcessTransport =
  server :: ServerProcess
  messageBuffer :: jsstring
  isConnected :: bool
  exitHandler :: bool
  onclose :: bool
  onerror :: bool
  onmessage :: bool

text \<open>
  One line of the buffer: the body of the \<open>while\<close> loop of \<open>handleData\<close> after the two
  slices. \<open>parse\<close> is \<open>JSON.parse\<close>: \<open>Inl\<close> is the message of the \<open>SyntaxError\<close> it throws.
\<close>

definition dispatch ::
  "(jsstring \<Rightarrow> string + 'm) \<Rightarrow> ProcessTransport \<Rightarrow> jsstring \<Rightarrow> 'm notification list" where
  "dispatch parse t messageStr =
     (if trim messageStr \<noteq> [] then
        (case parse messageStr of
           Inr message \<Rightarrow> (if onmessage t then [OnMessage message] else [])
         | Inl err \<Rightarrow> (if onerror t then [OnError err] else []))
      else [])"









section \<open>Errors\<close>

text \<open>
  The error classes of \<open>common/errors\<close>, each with its constructor's arguments, and plain
  \<open>Error\<close> objects (\<open>JsError\<close>, with the message).
\<close>

datatype error =
    ServerNotFoundError name
  | ServerDeploymentError string
  | ToolCallError name string string
  | JsError string

section \<open>The environment\<close>

text \<open>
  What the program observes of the world outside it is written into a log of events, and
  every answer of the environment may depend on the log so far.
\<close>

datatype request = Initialize | ListTools | CallTool string

datatype event =
    Spawned pid path
  | Signalled pid signal
  | Exited pid
  | Connecting cid name
  | Requested cid request
  | CloseNotified cid
  | ErrorNotified cid string

text \<open>A tool call's raw response: its \<open>content\<close> array when it has one.\<close>

datatype content_item = ContentItem (ctype: string) (ctext: "string option")

type_synonym response = "content_item list option"

text \<open>The arguments of a tool call: an object, as its properties with their values.\<close>

type_synonym arguments = "(string \<times> string) list"

text \<open>
  What \<open>callTool\<close> makes of a response: the JSON its first text item parses to, that text
  when it does not parse, or the response itself.
\<close>

datatype 'j tool_result = Parsed 'j | Text string | Raw response

datatype fnode = Directory | File string

text \<open>
  The environment: the messages the error classes of \<open>common/errors\<close> compute
  (\<open>errorMessage\<close>), \<open>Date.now()\<close>, the server under test as seen through the RPC client
  (the outcome of the initialize handshake, of \<open>listTools()\<close> with whether it settles
  within the health check's timeout, and of \<open>callTool()\<close>; \<open>Inl\<close> is a rejection with
  that message), \<open>JSON.parse\<close> on a tool's text, \<open>JSON.stringify\<close>, \<open>new RegExp(p).test(s)\<close>
  (\<open>Inl\<close>: the pattern is refused), \<open>process.env\<close>, the behaviour of a process spawned with
  a command, a working directory and an environment (it stops on its own during
  start-up, it ignores SIGTERM, \<open>kill()\<close> raises), \<open>process.cwd()\<close>,
  \<open>path.join\<close>, and what \<open>JSON.parse\<close> finds in a \<open>package.json\<close> (\<open>Inr b\<close>: it parses
  and \<open>b\<close> says whether \<open>scripts.start\<close> is set).
\<close>

record 'j env =
  errorMessage :: "error \<Rightarrow> string"
  now :: "event list \<Rightarrow> int"
  initialize :: "event list \<Rightarrow> cid \<Rightarrow> string option"
  listToolsReply :: "event list \<Rightarrow> cid \<Rightarrow> string + string list option"
  listToolsInTime :: "event list \<Rightarrow> cid \<Rightarrow> bool"
  callToolReply :: "event list \<Rightarrow> cid \<Rightarrow> string \<Rightarrow> arguments \<Rightarrow> string + response"
  parseJSON :: "string \<Rightarrow> 'j option"
  stringify :: "'j tool_result option \<Rightarrow> string"
  regexTest :: "string \<Rightarrow> string \<Rightarrow> string + bool"
  processEnv :: "string \<rightharpoonup> string"
  spawnChild :: "event list \<Rightarrow> string \<Rightarrow> path \<Rightarrow> (string \<rightharpoonup> string) \<Rightarrow> bool \<times> bool \<times> bool"
  cwd :: path
  pathJoin :: "path \<Rightarrow> path \<Rightarrow> path"
  packageStart :: "string \<Rightarrow> string + bool"

text \<open>\<open>error instanceof Error ? error.message : String(error)\<close>; every error here is an \<open>Error\<close>.\<close>

definition message :: "'j env \<Rightarrow> error \<Rightarrow> string" where
  "message env e = (case e of JsError m \<Rightarrow> m | _ \<Rightarrow> errorMessage env e)"

section \<open>The state of the program\<close>

record Client =
  transport :: "ProcessTransport option"

text \<open>
  \<open>runningServers\<close> (process.ts) and \<open>connectedClients\<close> (cache.ts) are the two module-level
  maps; \<open>processes\<close> and \<open>clients\<close> are the stores of the shared objects, \<open>files\<close> the file
  system, \<open>events\<close> the log.
\<close>

record world =
  runningServers :: "name \<rightharpoonup> ServerProcess"
  connectedClients :: "name \<rightharpoonup> cid"
  processes :: "pid \<Rightarrow> ChildProcess"
  clients :: "cid \<Rightarrow> Client"
  files :: "path \<rightharpoonup> fnode"
  events :: "event list"
  nextPid :: pid
  nextCid :: cid

definition emit :: "event \<Rightarrow> world \<Rightarrow> world" where
  "emit e w = w\<lparr>events := events w @ [e]\<rparr>"

definition setProcess :: "pid \<Rightarrow> ChildProcess \<Rightarrow> world \<Rightarrow> world" where
  "setProcess p cp w = w\<lparr>processes := (processes w)(p := cp)\<rparr>"

definition setTransport :: "cid \<Rightarrow> ProcessTransport \<Rightarrow> world \<Rightarrow> world" where
  "setTransport c t w = w\<lparr>clients := (clients w)(c := (clients w c)\<lparr>transport := Some t\<rparr>)\<rparr>"

section \<open>Child processes: signals and events\<close>

text \<open>
  \<open>ChildProcess.kill(signal)\<close>: on a process that has exited it returns false and changes
  nothing; it raises where the platform rejects the signal; otherwise the signal is
  delivered (the log records it), \<open>killed\<close> is set and it returns true. SIGKILL always
  ends the process, SIGTERM ends it unless the program ignores it.
\<close>

definition kill :: "pid \<Rightarrow> signal \<Rightarrow> world \<Rightarrow> (error + bool) \<times> world" where
  "kill p sig w =
     (let cp = processes w p
      in if exited cp then (Inr False, w)
         else if killThrows cp then (Inl (JsError ''kill EINVAL''), w)
         else (Inr True,
               setProcess p (cp\<lparr>killed := True,
                                doomed := (doomed cp \<or> sig = SIGKILL \<or> \<not> ignoresSIGTERM cp)\<rparr>)
                 (emit (Signalled p sig) w)))"

text \<open>
  The listeners. \<open>deployServer\<close>'s exit handler removes the name from the live-process map
  unless the deployment is persistent; the transport's exit handler (\<open>start\<close>) marks the
  transport disconnected and calls \<open>onclose\<close>.
\<close>

definition transportExitHandler :: "cid \<Rightarrow> world \<Rightarrow> world" where
  "transportExitHandler c w =
     (case transport (clients w c) of
        None \<Rightarrow> w
      | Some t \<Rightarrow>
          (let w1 = setTransport c (t\<lparr>isConnected := False\<rparr>) w
           in if onclose t then emit (CloseNotified c) w1 else w1))"

fun runExitListener :: "listener \<Rightarrow> world \<Rightarrow> world" where
  "runExitListener (DeployExit n persistent) w =
     (if \<not> persistent then w\<lparr>runningServers := (runningServers w)(n := None)\<rparr> else w)"
| "runExitListener (TransportExit c) w = transportExitHandler c w"

text \<open>The process terminates: its exit event is emitted, once.\<close>

definition emitExit :: "pid \<Rightarrow> world \<Rightarrow> world" where
  "emitExit p w =
     (let cp = processes w p
      in if exited cp then w
         else fold runExitListener (exitListeners cp)
                (emit (Exited p) (setProcess p (cp\<lparr>exited := True\<rparr>) w)))"

text \<open>The transport's listener for the process's error event (\<open>start\<close>).\<close>

definition transportErrorHandler :: "string \<Rightarrow> cid \<Rightarrow> world \<Rightarrow> world" where
  "transportErrorHandler err c w =
     (case transport (clients w c) of
        None \<Rightarrow> w
      | Some t \<Rightarrow>
          (let w1 = setTransport c (t\<lparr>isConnected := False\<rparr>) w
           in if onerror t then emit (ErrorNotified c err) w1 else w1))"

definition emitError :: "pid \<Rightarrow> string \<Rightarrow> world \<Rightarrow> world" where
  "emitError p err w = fold (transportErrorHandler err) (errorListeners (processes w p)) w"

text \<open>
  A suspension point (an \<open>await\<close>): the exit events of the processes that are about to
  terminate are emitted before the program goes on.
\<close>

definition suspend :: "world \<Rightarrow> world" where
  "suspend w =
     fold (\<lambda>p w'. if doomed (processes w' p) then emitExit p w' else w') [0..<nextPid w] w"

section \<open>The transport's lifecycle\<close>

text \<open>\<open>EventEmitter.removeListener\<close> removes one registration of the listener.\<close>

definition removeListener :: "listener \<Rightarrow> listener list \<Rightarrow> listener list" where
  "removeListener l ls = rev (remove1 l (rev ls))"

text \<open>
  \<open>ProcessTransport.start\<close> of the transport \<open>t\<close> of client \<open>c\<close>: it rejects when the
  process object is marked killed, and otherwise registers its listeners on the process.
\<close>

definition transport_start :: "cid \<Rightarrow> ProcessTransport \<Rightarrow> world \<Rightarrow> (error + unit) \<times> world" where
  "transport_start c t w =
     (let p = process (server t);
          cp = processes w p
      in if killed cp then
           (Inl (JsError (''Server process for '' @ name (server t) @ '' is not active'')),
            setTransport c (t\<lparr>isConnected := False\<rparr>) w)
         else
           (Inr (),
            setTransport c (t\<lparr>exitHandler := True, isConnected := True\<rparr>)
              (setProcess p (cp\<lparr>exitListeners := exitListeners cp @ [TransportExit c],
                                 errorListeners := errorListeners cp @ [c]\<rparr>) w)))"

text \<open>
  \<open>ProcessTransport.close\<close>: the exit listener is removed, the process is sent SIGTERM
  unless it is marked killed (an exception of either step is caught), and in the
  \<open>finally\<close> block the transport is marked disconnected and \<open>onclose\<close> is called.
\<close>

definition transport_close :: "cid \<Rightarrow> world \<Rightarrow> world" where
  "transport_close c w =
     (case transport (clients w c) of
        None \<Rightarrow> w
      | Some t \<Rightarrow>
          (let p = process (server t);
               cp = processes w p;
               w1 = (if exitHandler t then
                       setProcess p (cp\<lparr>exitListeners :=
                         removeListener (TransportExit c) (exitListeners cp)\<rparr>) w
                     else w);
               w2 = (if \<not> killed (processes w1 p) then snd (kill p SIGTERM w1) else w1);
               w3 = setTransport c (t\<lparr>isConnected := False\<rparr>) w2
           in if onclose t then emit (CloseNotified c) w3 else w3))"

section \<open>The client cache (cache.ts)\<close>

text \<open>
  \<open>removeClientFromCache\<close>. \<open>close()\<close> is an asynchronous function: what is raised inside it
  is caught by its own \<open>catch\<close> block or becomes a rejection that the \<open>.catch\<close> callback
  logs, and the entry is deleted in the \<open>finally\<close> block.
\<close>

definition removeClientFromCache :: "name \<Rightarrow> world \<Rightarrow> world" where
  "removeClientFromCache serverName w =
     (case connectedClients w serverName of
        None \<Rightarrow> w
      | Some client \<Rightarrow>
          (let w1 = (case transport (clients w client) of
                       Some t \<Rightarrow> transport_close client w
                     | None \<Rightarrow> w)
           in w1\<lparr>connectedClients := (connectedClients w1)(serverName := None)\<rparr>))"

text \<open>\<open>Array.from(connectedClients.keys())\<close> is the list \<open>serverNames\<close> of \<open>clearClientCache\<close>.\<close>

definition clearClientCache :: "name list \<Rightarrow> world \<Rightarrow> world" where
  "clearClientCache serverNames w =
     (if connectedClients w = Map.empty then w
      else (let w1 = fold removeClientFromCache serverNames w
            in if connectedClients w1 \<noteq> Map.empty then w1\<lparr>connectedClients := Map.empty\<rparr>
               else w1))"

section \<open>Process management (process.ts)\<close>

definition getServerProcess :: "name \<Rightarrow> world \<Rightarrow> error + ServerProcess" where
  "getServerProcess n w =
     (case runningServers w n of
        None \<Rightarrow> Inl (ServerNotFoundError n)
      | Some srv \<Rightarrow> Inr srv)"

text \<open>
  \<open>terminateProcess\<close>. After SIGTERM and the removal from the map it waits for the exit
  event or for the timer, whichever comes first; the timer's callback sends SIGKILL when
  the process object is not marked killed. A last wait follows. The \<open>catch\<close> block only
  waits.
\<close>

definition terminateProcess :: "name \<Rightarrow> world \<Rightarrow> world" where
  "terminateProcess n w =
     (case getServerProcess n w of
        Inl e \<Rightarrow> suspend w
      | Inr existingServer \<Rightarrow>
          (let p = process existingServer
           in case kill p SIGTERM w of
                (Inl e, w1) \<Rightarrow> suspend w1
              | (Inr sent, w1) \<Rightarrow>
                  (let w2 = w1\<lparr>runningServers := (runningServers w1)(n := None)\<rparr>;
                       w3 = suspend w2;
                       w4 = (if \<not> exited (processes w2 p) \<and> exited (processes w3 p) then w3
                             else if \<not> killed (processes w3 p) then snd (kill p SIGKILL w3)
                             else w3)
                   in suspend w4)))"

section \<open>Connections (connection.ts)\<close>

text \<open>
  \<open>client.connect(transport)\<close> of the RPC client: it installs its callbacks on the
  transport, starts it, and runs the initialize handshake with the server.
\<close>

definition client_connect ::
  "'j env \<Rightarrow> cid \<Rightarrow> ProcessTransport \<Rightarrow> world \<Rightarrow> (error + unit) \<times> world" where
  "client_connect env c t w =
     (let t1 = t\<lparr>onclose := True, onerror := True, onmessage := True\<rparr>
      in case transport_start c t1 (setTransport c t1 w) of
           (Inl e, w2) \<Rightarrow> (Inl e, w2)
         | (Inr u, w2) \<Rightarrow>
             (let reply = initialize env (events w2) c;
                  w3 = suspend (emit (Requested c Initialize) w2)
              in case reply of
                   None \<Rightarrow> (Inr (), w3)
                 | Some m \<Rightarrow> (Inl (JsError m), w3)))"

definition new_transport :: "ServerProcess \<Rightarrow> ProcessTransport" where
  "new_transport srv =
     \<lparr>server = srv, messageBuffer = [], isConnected = False, exitHandler = False,
      onclose = False, onerror = False, onmessage = False\<rparr>"

definition createNewClient :: "'j env \<Rightarrow> name \<Rightarrow> world \<Rightarrow> (error + cid) \<times> world" where
  "createNewClient env serverName w =
     (case getServerProcess serverName w of
        Inl e \<Rightarrow> (Inl (ToolCallError serverName ''connect'' (message env e)), w)
      | Inr srv \<Rightarrow>
          (let client = nextCid w;
               w1 = emit (Connecting client serverName)
                      (w\<lparr>clients := (clients w)(client := \<lparr>transport = None\<rparr>),
                         nextCid := Suc client\<rparr>)
           in case client_connect env client (new_transport srv) w1 of
                (Inl e, w2) \<Rightarrow> (Inl (ToolCallError serverName ''connect'' (message env e)), w2)
              | (Inr u, w2) \<Rightarrow>
                  (Inr client,
                   w2\<lparr>connectedClients := (connectedClients w2)(serverName \<mapsto> client)\<rparr>)))"

text \<open>
  \<open>verifyConnection\<close>: \<open>listTools()\<close> raced against the one-second timer. It is true only
  when the call settles in time and resolves.
\<close>

definition verifyConnection :: "'j env \<Rightarrow> cid \<Rightarrow> world \<Rightarrow> bool \<times> world" where
  "verifyConnection env client w =
     (let reply = listToolsReply env (events w) client;
          inTime = listToolsInTime env (events w) client;
          w1 = suspend (emit (Requested client ListTools) w)
      in (if inTime then (case reply of Inr r \<Rightarrow> True | Inl m \<Rightarrow> False) else False, w1))"

definition getClient :: "'j env \<Rightarrow> name \<Rightarrow> world \<Rightarrow> (error + cid) \<times> world" where
  "getClient env serverName w =
     (case connectedClients w serverName of
        Some cachedClient \<Rightarrow>
          (case getServerProcess serverName w of
             Inl e \<Rightarrow> createNewClient env serverName (removeClientFromCache serverName w)
           | Inr serverProcess \<Rightarrow>
               if killed (processes w (process serverProcess)) then
                 createNewClient env serverName (removeClientFromCache serverName w)
               else
                 (case verifyConnection env cachedClient w of
                    (True, w1) \<Rightarrow> (Inr cachedClient, w1)
                  | (False, w1) \<Rightarrow>
                      createNewClient env serverName (removeClientFromCache serverName w1)))
      | None \<Rightarrow> createNewClient env serverName w)"

section \<open>Tools (tools.ts)\<close>

record 'j CallToolResponse =
  result :: "'j tool_result option"
  error :: "string option"
  duration_ms :: int

definition extractResult :: "'j env \<Rightarrow> response \<Rightarrow> 'j tool_result" where
  "extractResult env response =
     (case response of
        None \<Rightarrow> Raw response
      | Some content \<Rightarrow>
          (case find (\<lambda>item. ctype item = ''text'') content of
             None \<Rightarrow> Raw response
           | Some textContent \<Rightarrow>
               (case ctext textContent of
                  None \<Rightarrow> Raw response
                | Some txt \<Rightarrow>
                    if txt = [] then Raw response
                    else (case parseJSON env txt of
                            Some j \<Rightarrow> Parsed j
                          | None \<Rightarrow> Text txt))))"

definition callTool ::
  "'j env \<Rightarrow> name \<Rightarrow> string \<Rightarrow> arguments \<Rightarrow> world \<Rightarrow> 'j CallToolResponse \<times> world" where
  "callTool env server_name tool_name args w =
     (let startTime = now env (events w)
      in case getClient env server_name w of
           (Inl e, w1) \<Rightarrow>
             (\<lparr>result = None, error = Some (message env e),
               duration_ms = now env (events w1) - startTime\<rparr>, w1)
         | (Inr client, w1) \<Rightarrow>
             (let reply = callToolReply env (events w1) client tool_name args;
                  w2 = suspend (emit (Requested client (CallTool tool_name)) w1);
                  duration = now env (events w2) - startTime
              in case reply of
                   Inl m \<Rightarrow> (\<lparr>result = None, error = Some m, duration_ms = duration\<rparr>, w2)
                 | Inr response \<Rightarrow>
                     (\<lparr>result = Some (extractResult env response), error = None,
                       duration_ms = duration\<rparr>, w2)))"

definition listTools :: "'j env \<Rightarrow> name \<Rightarrow> world \<Rightarrow> (error + string list) \<times> world" where
  "listTools env serverName w =
     (case getClient env serverName w of
        (Inl e, w1) \<Rightarrow> (Inl (ToolCallError serverName ''listTools'' (message env e)), w1)
      | (Inr client, w1) \<Rightarrow>
          (let reply = listToolsReply env (events w1) client;
               w2 = suspend (emit (Requested client ListTools) w1)
           in case reply of
                Inl m \<Rightarrow> (Inl (ToolCallError serverName ''listTools'' m), w2)
              | Inr tools \<Rightarrow> (Inr (case tools of None \<Rightarrow> [] | Some names \<Rightarrow> names), w2)))"

section \<open>Smoke tests (tests.ts)\<close>

text \<open>
  The fields \<open>name\<close>, \<open>message\<close>, \<open>duration_ms\<close> and \<open>error\<close> of a test case, a test result
  and a summary carry a letter in front where another record has a field of that name.
\<close>

text \<open>
  A test's expectation: its \<open>type\<close> with \<open>JSON.stringify(value)\<close> for \<open>equals\<close> and
  \<open>contains\<close>, the pattern for \<open>regex\<close>; \<open>OtherType\<close> is any other \<open>type\<close>.
\<close>

datatype expectation = Equals string | Contains string | Regex string | OtherType

record TestCase =
  tname :: string
  description :: string
  tool :: string
  input :: arguments
  expected :: "expectation option"

record TestResult =
  rname :: string
  passed :: bool
  rmessage :: string
  rduration_ms :: int
  rerror :: "string option"

record Summary =
  stotal :: nat
  spassed :: nat
  sfailed :: nat
  sduration_ms :: int

record RunTestsResponse =
  results :: "TestResult list"
  summary :: Summary

text \<open>\<open>s.includes(e)\<close>.\<close>

definition str_includes :: "string \<Rightarrow> string \<Rightarrow> bool" where
  "str_includes s e \<longleftrightarrow> list_ex (\<lambda>i. take (length e) (drop i s) = e) [0..<Suc (length s)]"

text \<open>\<open>if (result.error)\<close>: an absent or empty message is falsy.\<close>

definition truthy :: "string option \<Rightarrow> bool" where
  "truthy s \<longleftrightarrow> (case s of None \<Rightarrow> False | Some m \<Rightarrow> m \<noteq> [])"

definition runTestCase :: "'j env \<Rightarrow> name \<Rightarrow> TestCase \<Rightarrow> world \<Rightarrow> TestResult \<times> world" where
  "runTestCase env serverName test w =
     (let startTime = now env (events w);
          (res, w1) = callTool env serverName (tool test) (input test) w;
          duration = now env (events w1) - startTime
      in case (if truthy (error res) then error res else None) of
           Some err \<Rightarrow>
             (\<lparr>rname = tname test, passed = False, rmessage = ''Tool call failed: '' @ err,
               rduration_ms = duration, rerror = Some err\<rparr>, w1)
         | None \<Rightarrow>
           (case expected test of
              Some ex \<Rightarrow>
                (case (case ex of
                         Equals v \<Rightarrow> Inr (stringify env (result res) = v)
                       | Contains v \<Rightarrow> Inr (str_includes (stringify env (result res)) v)
                       | Regex v \<Rightarrow> regexTest env v (stringify env (result res))
                       | OtherType \<Rightarrow> Inr False) of
                   Inr ok \<Rightarrow>
                     (\<lparr>rname = tname test, passed = ok,
                       rmessage = (if ok then ''Test passed''
                                   else ''Test failed: result did not match expected value''),
                       rduration_ms = duration, rerror = None\<rparr>, w1)
                 | Inl m \<Rightarrow>
                     (\<lparr>rname = tname test, passed = False,
                       rmessage = ''Test failed with error: '' @ m,
                       rduration_ms = now env (events w1) - startTime, rerror = Some m\<rparr>, w1))
            | None \<Rightarrow>
                (\<lparr>rname = tname test, passed = True, rmessage = ''Test passed'',
                  rduration_ms = duration, rerror = None\<rparr>, w1)))"

text \<open>The \<open>for\<close> loop of \<open>runTests\<close>: the tests run one after the other.\<close>

fun runEach :: "'j env \<Rightarrow> name \<Rightarrow> TestCase list \<Rightarrow> world \<Rightarrow> TestResult list \<times> world" where
  "runEach env serverName [] w = ([], w)"
| "runEach env serverName (test # tests) w =
     (let (r, w1) = runTestCase env serverName test w;
          (rs, w2) = runEach env serverName tests w1
      in (r # rs, w2))"

definition basicTest :: "string \<Rightarrow> TestCase" where
  "basicTest toolName =
     \<lparr>tname = ''List '' @ toolName @ '' schema'',
      description = ''Check that '' @ toolName @ '' is available and has a valid schema'',
      tool = toolName, input = [], expected = None\<rparr>"

definition runTests :: "'j env \<Rightarrow> name \<Rightarrow> world \<Rightarrow> (error + RunTestsResponse) \<times> world" where
  "runTests env server_name w =
     (let startTime = now env (events w)
      in case getServerProcess server_name w of
           Inl e \<Rightarrow> (Inl e, w)
         | Inr srv \<Rightarrow>
             (case listTools env server_name w of
                (Inl e, w1) \<Rightarrow>
                  (let duration = now env (events w1) - startTime
                   in (Inr \<lparr>results =
                              [\<lparr>rname = ''Test suite setup'', passed = False,
                                rmessage = ''Failed to setup test suite: '' @ message env e,
                                rduration_ms = duration, rerror = Some (message env e)\<rparr>],
                            summary = \<lparr>stotal = 1, spassed = 0, sfailed = 1,
                                       sduration_ms = duration\<rparr>\<rparr>, w1))
              | (Inr tools, w1) \<Rightarrow>
                  (let basicTests = map basicTest tools;
                       (rs, w2) = runEach env server_name basicTests w1;
                       npassed = length (filter passed rs);
                       ntotal = length rs;
                       nfailed = ntotal - npassed;
                       duration = now env (events w2) - startTime
                   in (Inr \<lparr>results = rs,
                            summary = \<lparr>stotal = ntotal, spassed = npassed, sfailed = nfailed,
                                       sduration_ms = duration\<rparr>\<rparr>, w2))))"

section \<open>Deployment (deploy.ts)\<close>

definition CONTAINER_PREFIX :: string where
  "CONTAINER_PREFIX = ''mcp-test-''"

record DeployServerResponse =
  dname :: name
  did :: string
  dstatus :: string

definition validateSourcePath :: "'j env \<Rightarrow> path \<Rightarrow> world \<Rightarrow> error + unit" where
  "validateSourcePath env sourcePath w =
     (if files w sourcePath = None then
        Inl (ServerDeploymentError (''Source path not found: '' @ sourcePath))
      else if files w (pathJoin env sourcePath ''package.json'') = None then
        Inl (ServerDeploymentError (''package.json not found in '' @ sourcePath))
      else Inr ())"

definition determineStartCommand :: "'j env \<Rightarrow> path \<Rightarrow> world \<Rightarrow> error + string" where
  "determineStartCommand env sourcePath w =
     (case files w (pathJoin env sourcePath ''package.json'') of
        Some (File content) \<Rightarrow>
          (case packageStart env content of
             Inl m \<Rightarrow> Inl (JsError m)
           | Inr hasStart \<Rightarrow> Inr (if hasStart then ''npm run start'' else ''node dist/index.js''))
      | Some Directory \<Rightarrow> Inl (JsError ''EISDIR: illegal operation on a directory, read'')
      | None \<Rightarrow> Inl (JsError ''ENOENT: no such file or directory''))"

definition prepareEnvironmentVariables ::
  "'j env \<Rightarrow> (string \<rightharpoonup> string) option \<Rightarrow> (string \<rightharpoonup> string)" where
  "prepareEnvironmentVariables env envVars =
     (case envVars of None \<Rightarrow> processEnv env | Some vars \<Rightarrow> processEnv env ++ vars)"

text \<open>\<open>child_process.spawn\<close>: a new process object; the environment says how it behaves.\<close>

definition spawn ::
  "'j env \<Rightarrow> string \<Rightarrow> path \<Rightarrow> (string \<rightharpoonup> string) \<Rightarrow> world \<Rightarrow> pid \<times> world" where
  "spawn env command dir environment w =
     (let p = nextPid w;
          (stops, ignores, throws) = spawnChild env (events w) command dir environment
      in (p, emit (Spawned p dir)
               (w\<lparr>processes := (processes w)(p :=
                     \<lparr>killed = False, exited = False, doomed = stops, ignoresSIGTERM = ignores,
                      killThrows = throws, exitListeners = [], errorListeners = []\<rparr>),
                   nextPid := Suc p\<rparr>)))"

text \<open>\<open>setupLogStream\<close> (logs.ts): the log directory and the log file exist afterwards.\<close>

definition setupLogStream :: "'j env \<Rightarrow> name \<Rightarrow> world \<Rightarrow> world" where
  "setupLogStream env serverName w =
     (let logDir = pathJoin env (cwd env) ''logs'';
          w1 = (if files w logDir = None then w\<lparr>files := (files w)(logDir \<mapsto> Directory)\<rparr> else w);
          logFile = pathJoin env logDir (serverName @ ''.log'')
      in if files w1 logFile = None then w1\<lparr>files := (files w1)(logFile \<mapsto> File [])\<rparr> else w1)"

definition deployServer ::
  "'j env \<Rightarrow> name \<Rightarrow> path \<Rightarrow> (string \<rightharpoonup> string) option \<Rightarrow> bool \<Rightarrow> world
     \<Rightarrow> (error + DeployServerResponse) \<times> world" where
  "deployServer env n src env_vars persistent w =
     (let containerId = CONTAINER_PREFIX @ n
      in case validateSourcePath env src w of
           Inl e \<Rightarrow> (Inl e, w)
         | Inr u \<Rightarrow>
             (let w1 = removeClientFromCache n w;
                  w2 = (if runningServers w1 n \<noteq> None then terminateProcess n w1 else w1)
              in case determineStartCommand env src w2 of
                   Inl e \<Rightarrow> (Inl (ServerDeploymentError (message env e)), w2)
                 | Inr startCommand \<Rightarrow>
                     (let environment = prepareEnvironmentVariables env env_vars;
                          (serverProcess, w3) = spawn env startCommand src environment w2;
                          w4 = setupLogStream env n w3;
                          deployedAt = now env (events w4);
                          w5 = w4\<lparr>runningServers := (runningServers w4)(n \<mapsto>
                                  \<lparr>process = serverProcess, name = n, source_path = src,
                                   deployed_at = deployedAt\<rparr>)\<rparr>;
                          cp = processes w5 serverProcess;
                          w6 = setProcess serverProcess
                                 (cp\<lparr>exitListeners := exitListeners cp @ [DeployExit n persistent]\<rparr>) w5;
                          w7 = suspend w6
                      in (Inr \<lparr>dname = n, did = containerId, dstatus = ''running''\<rparr>, w7))))"

section \<open>Stopping a server (container.ts)\<close>

record ServerOperationResponse =
  oname :: name
  ostatus :: string

text \<open>
  \<open>stopServer\<close>. The inner \<open>case\<close> is the \<open>try\<close> block after the test of the map, the outer
  one the \<open>catch\<close> block: it evicts the cached client, answers a \<open>ServerNotFoundError\<close>
  with \<open>stopped\<close>, and throws a new \<open>Error\<close> for anything else.
\<close>

definition stopServer ::
  "'j env \<Rightarrow> name \<Rightarrow> world \<Rightarrow> (error + ServerOperationResponse) \<times> world" where
  "stopServer env server_name w =
     (if runningServers w server_name = None then
        (Inr \<lparr>oname = server_name, ostatus = ''stopped''\<rparr>, removeClientFromCache server_name w)
      else
        (case (case getServerProcess server_name w of
                 Inl e \<Rightarrow> (Inl e, w)
               | Inr srv \<Rightarrow>
                   (case kill (process srv) SIGTERM w of
                      (Inl e, w1) \<Rightarrow> (Inl e, w1)
                    | (Inr sent, w1) \<Rightarrow>
                        (let w2 = w1\<lparr>runningServers := (runningServers w1)(server_name := None)\<rparr>;
                             w3 = removeClientFromCache server_name w2
                         in (Inr (), suspend w3)))) of
           (Inr u, w') \<Rightarrow> (Inr \<lparr>oname = server_name, ostatus = ''stopped''\<rparr>, w')
         | (Inl e, w') \<Rightarrow>
             (let w'' = removeClientFromCache server_name w'
              in case e of
                   ServerNotFoundError x \<Rightarrow>
                     (Inr \<lparr>oname = server_name, ostatus = ''stopped''\<rparr>, w'')
                 | _ \<Rightarrow> (Inl (JsError (message env e)), w''))))"

section \<open>Logs (logs.ts)\<close>

record GetLogsResponse =
  logs :: string
  lerror :: "string option"

text \<open>\<open>s.split('\n')\<close> on the text of a file.\<close>

primrec split_lines :: "string \<Rightarrow> string list" where
  "split_lines [] = [[]]"
| "split_lines (c # cs) =
     (if c = CHR 0x0A then [] # split_lines cs
      else (case split_lines cs of
              [] \<Rightarrow> [[c]]
            | l # ls \<Rightarrow> (c # l) # ls))"

text \<open>\<open>lines.join('\n')\<close>.\<close>

fun join_lines :: "string list \<Rightarrow> string" where
  "join_lines [] = []"
| "join_lines [l] = l"
| "join_lines (l # ls) = l @ [CHR 0x0A] @ join_lines ls"

text \<open>\<open>lines.slice(-n)\<close>: the last \<open>n\<close> elements, and all of them for \<open>n = 0\<close>.\<close>

definition slice_last :: "nat \<Rightarrow> 'a list \<Rightarrow> 'a list" where
  "slice_last n xs = (if n = 0 then xs else drop (length xs - n) xs)"

text \<open>The data handler of \<open>readLastLines\<close>, on the pair of \<open>buffer\<close> and \<open>lines\<close>.\<close>

definition onData :: "nat \<Rightarrow> string \<Rightarrow> string \<times> string list \<Rightarrow> string \<times> string list" where
  "onData lineCount chunk st =
     (let buffer = fst st @ chunk;
          linesToAdd = split_lines buffer;
          lns = snd st @ butlast linesToAdd
      in (last linesToAdd,
          if length lns > lineCount then drop (length lns - lineCount) lns else lns))"

text \<open>The 1 KB chunks in which the read stream delivers a file.\<close>

function chunksOf :: "string \<Rightarrow> string list" where
  "chunksOf s = (if s = [] then [] else take 1024 s # chunksOf (drop 1024 s))"
  by pat_completeness auto
termination
  by (relation "measure length") auto

declare chunksOf.simps [simp del]

text \<open>
  \<open>readLastLines\<close> on what the path holds: the data handler runs on every chunk, the end
  handler adds what is left in the buffer; a directory makes the stream fail.
\<close>

definition readLastLines :: "fnode \<Rightarrow> nat \<Rightarrow> string + string" where
  "readLastLines node lineCount =
     (case node of
        Directory \<Rightarrow> Inl ''EISDIR: illegal operation on a directory, read''
      | File content \<Rightarrow>
          (let (buffer, lns) = fold (onData lineCount) (chunksOf content) ([], []);
               lns' = (if buffer \<noteq> [] then lns @ [buffer] else lns)
           in Inr (join_lines (slice_last lineCount lns'))))"

text \<open>
  \<open>getServerLogs\<close>: a \<open>ServerNotFoundError\<close> is rethrown, any other error is reported in
  the response.
\<close>

definition getServerLogs ::
  "'j env \<Rightarrow> name \<Rightarrow> nat \<Rightarrow> world \<Rightarrow> error + GetLogsResponse" where
  "getServerLogs env server_name lns w =
     (case getServerProcess server_name w of
        Inl e \<Rightarrow> Inl e
      | Inr srv \<Rightarrow>
          (let logDir = pathJoin env (cwd env) ''logs'';
               logFile = pathJoin env logDir (server_name @ ''.log'')
           in case files w logFile of
                None \<Rightarrow>
                  Inr \<lparr>logs = ''No logs found for server '' @ [CHR 0x27] @ server_name @ [CHR 0x27],
                       lerror = None\<rparr>
              | Some node \<Rightarrow>
                  (case readLastLines node lns of
                     Inl m \<Rightarrow> Inr \<lparr>logs = [], lerror = Some m\<rparr>
                   | Inr txt \<Rightarrow> Inr \<lparr>logs = txt, lerror = None\<rparr>)))"

section \<open>Counting connections\<close>

text \<open>\<open>createNewClient\<close> logs \<open>Connecting\<close> once for every client it constructs and connects.\<close>

fun isConnecting :: "event \<Rightarrow> bool" where
  "isConnecting (Connecting c n) = True"
| "isConnecting e = False"

definition connectionAttempts :: "world \<Rightarrow> nat" where
  "connectionAttempts w = length (filter isConnecting (events w))"

section \<open>What happens to a transport\<close>

text \<open>
  The three things that can happen to the transport of a client once it is started: its
  \<open>close()\<close> is called, its process terminates, its process reports an error.
\<close>

datatype trigger = CallClose | ProcessExit | ProcessError string

fun fire :: "cid \<Rightarrow> trigger \<Rightarrow> world \<Rightarrow> world" where
  "fire c CallClose w = transport_close c w"
| "fire c ProcessExit w =
     (case transport (clients w c) of
        None \<Rightarrow> w
      | Some t \<Rightarrow> emitExit (process (server t)) w)"
| "fire c (ProcessError err) w =
     (case transport (clients w c) of
        None \<Rightarrow> w
      | Some t \<Rightarrow> emitError (process (server t)) err w)"

text \<open>How often the \<open>onclose\<close> callback of the transport of client \<open>c\<close> has been called.\<close>

definition closeCount :: "cid \<Rightarrow> world \<Rightarrow> nat" where
  "closeCount c w = count_list (events w) (CloseNotified c)"

text \<open>
  The transport of client \<open>c\<close> is bound to process \<open>p\<close>, has been started, and its
  \<open>onclose\<close> slot is set.
\<close>

definition started :: "cid \<Rightarrow> pid \<Rightarrow> world \<Rightarrow> bool" where
  "started c p w \<longleftrightarrow>
     (case transport (clients w c) of
        None \<Rightarrow> False
      | Some t \<Rightarrow> onclose t \<and> exitHandler t \<and> process (server t) = p)"

text \<open>How many calls of \<open>onclose\<close> the exit of the process would cause.\<close>

definition pendingExit :: "cid \<Rightarrow> pid \<Rightarrow> world \<Rightarrow> nat" where
  "pendingExit c p w =
     (if exited (processes w p) then 0
      else count_list (exitListeners (processes w p)) (TransportExit c))"

text \<open>No process is about to terminate.\<close>

definition quiet :: "world \<Rightarrow> bool" where
  "quiet w \<longleftrightarrow> (\<forall>p \<in> set [0..<nextPid w]. \<not> doomed (processes w p))"

section \<open>Example inputs\<close>



text \<open>
  A well-behaved environment: the server answers every request at once and lists one
  tool, a spawned program terminates on SIGTERM. \<open>world0\<close> is the program at start-up,
  with two source directories; \<open>deployed\<close> is \<open>world0\<close> after \<open>srv\<close> has been deployed,
  \<open>connected\<close> is \<open>deployed\<close> after a client has been acquired for it.
\<close>

definition env0 :: "nat env" where
  "env0 =
     \<lparr>errorMessage = (\<lambda>e. case e of
          ServerNotFoundError n \<Rightarrow> ''Server not found: '' @ n
        | ServerDeploymentError m \<Rightarrow> ''Deployment failed: '' @ m
        | ToolCallError s t m \<Rightarrow> t @ '' failed on '' @ s @ '': '' @ m
        | JsError m \<Rightarrow> m),
      now = (\<lambda>evs. int (length evs)),
      initialize = (\<lambda>evs c. None),
      listToolsReply = (\<lambda>evs c. Inr (Some [''echo''])),
      listToolsInTime = (\<lambda>evs c. True),
      callToolReply = (\<lambda>evs c tl args. Inr (Some [ContentItem ''text'' (Some ''ok'')])),
      parseJSON = (\<lambda>s. None),
      stringify = (\<lambda>r. []),
      regexTest = (\<lambda>p s. Inr False),
      processEnv = Map.empty,
      spawnChild = (\<lambda>evs cmd dir environment. (False, False, False)),
      cwd = ''/harness'',
      pathJoin = (\<lambda>a b. a @ ''/'' @ b),
      packageStart = (\<lambda>content. Inr True)\<rparr>"

definition world0 :: world where
  "world0 =
     \<lparr>runningServers = Map.empty, connectedClients = Map.empty,
      processes = (\<lambda>p. \<lparr>killed = False, exited = True, doomed = False, ignoresSIGTERM = False,
                          killThrows = False, exitListeners = [], errorListeners = []\<rparr>),
      clients = (\<lambda>c. \<lparr>transport = None\<rparr>),
      files = [''/srv'' \<mapsto> Directory, ''/srv/package.json'' \<mapsto> File ''{}'',
               ''/srv2'' \<mapsto> Directory, ''/srv2/package.json'' \<mapsto> File ''{}''],
      events = [], nextPid = 0, nextCid = 0\<rparr>"

definition deployed :: world where
  "deployed = snd (deployServer env0 ''srv'' ''/srv'' None False world0)"

definition connected :: world where
  "connected = snd (getClient env0 ''srv'' deployed)"

text \<open>
  A cached client left behind for a name that is no longer registered, on a platform
  where \<open>kill()\<close> raises.
\<close>

definition stale :: world where
  "stale =
     connected\<lparr>runningServers := Map.empty,
               processes := (processes connected)(0 := (processes connected 0)\<lparr>killThrows := True\<rparr>)\<rparr>"

text \<open>A server that lists the same tool twice.\<close>

definition env_dup :: "nat env" where
  "env_dup = env0\<lparr>listToolsReply := \<lambda>evs c. Inr (Some [''echo'', ''echo''])\<rparr>"

text \<open>A server that rejects the list call.\<close>

definition env_reject :: "nat env" where
  "env_reject = env0\<lparr>listToolsReply := \<lambda>evs c. Inl ''Method not found''\<rparr>"

text \<open>A server whose \<open>listTools\<close> does not settle within the health check's timeout.\<close>

definition env_slow :: "nat env" where
  "env_slow = env0\<lparr>listToolsInTime := \<lambda>evs c. False\<rparr>"

text \<open>A server program that ignores SIGTERM, deployed as \<open>srv\<close>.\<close>

definition env_stubborn :: "nat env" where
  "env_stubborn = env0\<lparr>spawnChild := \<lambda>evs command dir environment. (False, True, False)\<rparr>"

definition stubborn :: world where
  "stubborn = snd (deployServer env_stubborn ''srv'' ''/srv'' None False world0)"

text \<open>The deployed server after its log file has been deleted.\<close>

definition unlogged :: world where
  "unlogged = deployed\<lparr>files := (files deployed)(''/harness/logs/srv.log'' := None)\<rparr>"

section \<open>Framing: the incoming-data handler\<close>


lemma indexOf_append_Some: "indexOf a c = Some i \<Longrightarrow> indexOf (a @ b) c = Some i"
  by (induction a arbitrary: i) (auto split: if_splits)




lemma dispatch_buffer [simp]:
  "dispatch parse (t\<lparr>messageBuffer := b\<rparr>) = dispatch parse t"
  by (auto simp: dispatch_def fun_eq_iff split: sum.splits)








lemma toString_Nil [simp]: "toString [] = []"
  by (simp add: toString_def)







section \<open>What each operation leaves alone\<close>

lemma emit_simps [simp]:
  "runningServers (emit e w) = runningServers w"
  "connectedClients (emit e w) = connectedClients w"
  "processes (emit e w) = processes w"
  "clients (emit e w) = clients w"
  "files (emit e w) = files w"
  "nextPid (emit e w) = nextPid w"
  "nextCid (emit e w) = nextCid w"
  "events (emit e w) = events w @ [e]"
  by (simp_all add: emit_def)

lemma setProcess_simps [simp]:
  "runningServers (setProcess p cp w) = runningServers w"
  "connectedClients (setProcess p cp w) = connectedClients w"
  "processes (setProcess p cp w) = (processes w)(p := cp)"
  "clients (setProcess p cp w) = clients w"
  "files (setProcess p cp w) = files w"
  "nextPid (setProcess p cp w) = nextPid w"
  "nextCid (setProcess p cp w) = nextCid w"
  "events (setProcess p cp w) = events w"
  by (simp_all add: setProcess_def)

lemma setTransport_simps [simp]:
  "runningServers (setTransport c t w) = runningServers w"
  "connectedClients (setTransport c t w) = connectedClients w"
  "processes (setTransport c t w) = processes w"
  "clients (setTransport c t w) = (clients w)(c := (clients w c)\<lparr>transport := Some t\<rparr>)"
  "files (setTransport c t w) = files w"
  "nextPid (setTransport c t w) = nextPid w"
  "nextCid (setTransport c t w) = nextCid w"
  "events (setTransport c t w) = events w"
  by (simp_all add: setTransport_def)

lemma kill_frame [simp]:
  "runningServers (snd (kill p sig w)) = runningServers w"
  "connectedClients (snd (kill p sig w)) = connectedClients w"
  "clients (snd (kill p sig w)) = clients w"
  "files (snd (kill p sig w)) = files w"
  "nextPid (snd (kill p sig w)) = nextPid w"
  "nextCid (snd (kill p sig w)) = nextCid w"
  by (simp_all add: kill_def Let_def)

lemma transport_close_frame [simp]:
  "runningServers (transport_close c w) = runningServers w"
  "connectedClients (transport_close c w) = connectedClients w"
  "files (transport_close c w) = files w"
  "nextPid (transport_close c w) = nextPid w"
  "nextCid (transport_close c w) = nextCid w"
  by (simp_all add: transport_close_def Let_def split: option.splits)

lemma removeClientFromCache_cache [simp]:
  "connectedClients (removeClientFromCache n w) = (connectedClients w)(n := None)"
  by (auto simp: removeClientFromCache_def Let_def split: option.splits)

lemma removeClientFromCache_frame [simp]:
  "runningServers (removeClientFromCache n w) = runningServers w"
  "files (removeClientFromCache n w) = files w"
  "nextPid (removeClientFromCache n w) = nextPid w"
  "nextCid (removeClientFromCache n w) = nextCid w"
  by (simp_all add: removeClientFromCache_def Let_def split: option.splits)

lemma transportExitHandler_frame [simp]:
  "runningServers (transportExitHandler c w) = runningServers w"
  "connectedClients (transportExitHandler c w) = connectedClients w"
  "processes (transportExitHandler c w) = processes w"
  "files (transportExitHandler c w) = files w"
  "nextPid (transportExitHandler c w) = nextPid w"
  "nextCid (transportExitHandler c w) = nextCid w"
  by (simp_all add: transportExitHandler_def Let_def split: option.splits)

lemma runExitListener_frame [simp]:
  "connectedClients (runExitListener l w) = connectedClients w"
  "processes (runExitListener l w) = processes w"
  "files (runExitListener l w) = files w"
  "nextPid (runExitListener l w) = nextPid w"
  "nextCid (runExitListener l w) = nextCid w"
  by (cases l; simp)+

lemma runExitListener_running:
  "runningServers w n = None \<Longrightarrow> runningServers (runExitListener l w) n = None"
  by (cases l) simp_all

lemma fold_runExitListener_frame [simp]:
  "connectedClients (fold runExitListener ls w) = connectedClients w"
  "processes (fold runExitListener ls w) = processes w"
  "files (fold runExitListener ls w) = files w"
  "nextPid (fold runExitListener ls w) = nextPid w"
  "nextCid (fold runExitListener ls w) = nextCid w"
  by (induction ls arbitrary: w; simp)+

lemma fold_runExitListener_running:
  "runningServers w n = None \<Longrightarrow> runningServers (fold runExitListener ls w) n = None"
  by (induction ls arbitrary: w) (simp_all add: runExitListener_running)

lemma emitExit_frame [simp]:
  "connectedClients (emitExit p w) = connectedClients w"
  "files (emitExit p w) = files w"
  "nextPid (emitExit p w) = nextPid w"
  "nextCid (emitExit p w) = nextCid w"
  by (simp_all add: emitExit_def Let_def)

lemma emitExit_running:
  "runningServers w n = None \<Longrightarrow> runningServers (emitExit p w) n = None"
  by (simp add: emitExit_def Let_def fold_runExitListener_running)

lemma suspend_fold_frame:
  "connectedClients (fold (\<lambda>p w'. if doomed (processes w' p) then emitExit p w' else w') ps w) = connectedClients w
   \<and> files (fold (\<lambda>p w'. if doomed (processes w' p) then emitExit p w' else w') ps w) = files w
   \<and> nextPid (fold (\<lambda>p w'. if doomed (processes w' p) then emitExit p w' else w') ps w) = nextPid w
   \<and> nextCid (fold (\<lambda>p w'. if doomed (processes w' p) then emitExit p w' else w') ps w) = nextCid w"
  by (induction ps arbitrary: w) simp_all

lemma suspend_frame [simp]:
  "connectedClients (suspend w) = connectedClients w"
  "files (suspend w) = files w"
  "nextPid (suspend w) = nextPid w"
  "nextCid (suspend w) = nextCid w"
  by (simp_all add: suspend_def suspend_fold_frame)

lemma suspend_fold_running:
  "runningServers w n = None \<Longrightarrow>
   runningServers (fold (\<lambda>p w'. if doomed (processes w' p) then emitExit p w' else w') ps w) n = None"
  by (induction ps arbitrary: w) (simp_all add: emitExit_running)

lemma suspend_running:
  "runningServers w n = None \<Longrightarrow> runningServers (suspend w) n = None"
  by (simp add: suspend_def suspend_fold_running)

lemma kill_error: "kill p sig w = (Inl e, w') \<Longrightarrow> e = JsError ''kill EINVAL''"
  by (auto simp: kill_def Let_def split: if_splits)

section \<open>The example worlds\<close>

lemmas model_defs =
  deployServer_def validateSourcePath_def determineStartCommand_def
  prepareEnvironmentVariables_def spawn_def setupLogStream_def CONTAINER_PREFIX_def
  removeClientFromCache_def terminateProcess_def getServerProcess_def
  getClient_def createNewClient_def client_connect_def new_transport_def
  verifyConnection_def transport_start_def transport_close_def removeListener_def
  kill_def suspend_def emitExit_def emitError_def transportExitHandler_def
  transportErrorHandler_def emit_def setProcess_def setTransport_def
  message_def Let_def

lemmas example_defs = env0_def world0_def deployed_def connected_def stale_def env_slow_def
  env_stubborn_def stubborn_def

lemma deployed_eval:
  "runningServers deployed ''srv'' = Some \<lparr>process = 0, name = ''srv'', source_path = ''/srv'', deployed_at = 1\<rparr>"
  "connectedClients deployed = Map.empty"
  "nextPid deployed = 1" "nextCid deployed = 0"
  "events deployed = [Spawned 0 ''/srv'']"
  by (simp_all add: example_defs model_defs)

lemma stale_eval:
  "runningServers stale ''srv'' = None"
  "connectedClients stale ''srv'' = Some 0"
  "killThrows (processes stale 0)"
  "\<not> killed (processes stale 0)"
  by (simp_all add: example_defs model_defs)

section \<open>Stopping a server\<close>

text \<open>
  C8. Stopping a name that has no entry in the live-process map returns
  \<open>{name, status: "stopped"}\<close> and raises nothing.
\<close>

theorem stopServer_never_deployed:
  "runningServers w server_name = None \<Longrightarrow>
   fst (stopServer env server_name w) = Inr \<lparr>oname = server_name, ostatus = ''stopped''\<rparr>"
  by (simp add: stopServer_def)

theorem stopServer_never_deployed_witness:
  "runningServers world0 ''ghost'' = None
   \<and> fst (stopServer env0 ''ghost'' world0) = Inr \<lparr>oname = ''ghost'', ostatus = ''stopped''\<rparr>"
  using stopServer_never_deployed [of world0 "''ghost''" env0]
  by (simp add: world0_def)

text \<open>
  C9. When \<open>stopServer\<close> returns, the name is in neither map, whether or not a process
  was running under it; and \<open>removeClientFromCache\<close> always removes the entry, whatever
  happens while the client's transport is closed.
\<close>

theorem stopServer_clears_both_maps:
  "fst (stopServer env n w) = Inr r \<Longrightarrow>
   runningServers (snd (stopServer env n w)) n = None
   \<and> connectedClients (snd (stopServer env n w)) n = None
   \<and> connectedClients (removeClientFromCache n w) n = None"
  by (auto simp: stopServer_def getServerProcess_def Let_def suspend_running
      split: if_splits option.splits sum.splits prod.splits error.splits dest: kill_error)

theorem stopServer_clears_both_maps_witness:
  "fst (stopServer env0 ''srv'' stale) = Inr \<lparr>oname = ''srv'', ostatus = ''stopped''\<rparr>
   \<and> connectedClients stale ''srv'' = Some 0
   \<and> killThrows (processes stale 0)
   \<and> runningServers (snd (stopServer env0 ''srv'' stale)) ''srv'' = None
   \<and> connectedClients (snd (stopServer env0 ''srv'' stale)) ''srv'' = None
   \<and> connectedClients (removeClientFromCache ''srv'' stale) ''srv'' = None"
proof -
  have a: "fst (stopServer env0 ''srv'' stale) = Inr \<lparr>oname = ''srv'', ostatus = ''stopped''\<rparr>"
    by (simp add: stopServer_def stale_eval)
  show ?thesis
    using stopServer_clears_both_maps [OF a] a stale_eval by simp
qed

section \<open>Logs\<close>

text \<open>
  C10. For a name in the live-process map whose log file does not exist, \<open>getServerLogs\<close>
  returns the text \<open>No logs found for server '<name>'\<close> and no error.
\<close>

theorem getServerLogs_no_log_file:
  "runningServers w n = Some srv \<Longrightarrow>
   files w (pathJoin env (pathJoin env (cwd env) ''logs'') (n @ ''.log'')) = None \<Longrightarrow>
   getServerLogs env n k w =
     Inr \<lparr>logs = ''No logs found for server '' @ [CHR 0x27] @ n @ [CHR 0x27], lerror = None\<rparr>"
  by (simp add: getServerLogs_def getServerProcess_def Let_def)

theorem getServerLogs_no_log_file_witness:
  "runningServers unlogged ''srv'' =
     Some \<lparr>process = 0, name = ''srv'', source_path = ''/srv'', deployed_at = 1\<rparr>
   \<and> files unlogged (pathJoin env0 (pathJoin env0 (cwd env0) ''logs'') (''srv'' @ ''.log'')) = None
   \<and> getServerLogs env0 ''srv'' 100 unlogged =
       Inr \<lparr>logs = ''No logs found for server '' @ [CHR 0x27] @ ''srv'' @ [CHR 0x27],
            lerror = None\<rparr>"
proof -
  have a: "runningServers unlogged ''srv'' =
     Some \<lparr>process = 0, name = ''srv'', source_path = ''/srv'', deployed_at = 1\<rparr>"
    by (simp add: unlogged_def deployed_eval)
  have b: "files unlogged (pathJoin env0 (pathJoin env0 (cwd env0) ''logs'') (''srv'' @ ''.log'')) = None"
    by (simp add: unlogged_def env0_def)
  show ?thesis
    using getServerLogs_no_log_file [OF a b, of 100] a b by simp
qed

section \<open>Acquiring a client\<close>

lemma connectionAttempts_emit [simp]:
  "connectionAttempts (emit e w) = connectionAttempts w + (if isConnecting e then 1 else 0)"
  by (simp add: connectionAttempts_def emit_def)

lemma connectionAttempts_transportExitHandler [simp]:
  "connectionAttempts (transportExitHandler c w) = connectionAttempts w"
  by (simp add: transportExitHandler_def Let_def split: option.splits)
    (simp add: connectionAttempts_def)

lemma connectionAttempts_runExitListener [simp]:
  "connectionAttempts (runExitListener l w) = connectionAttempts w"
proof (cases l)
  case (DeployExit n persistent)
  then show ?thesis by (simp add: connectionAttempts_def)
next
  case (TransportExit c)
  then show ?thesis by simp
qed

lemma connectionAttempts_fold_runExitListener [simp]:
  "connectionAttempts (fold runExitListener ls w) = connectionAttempts w"
  by (induction ls arbitrary: w) simp_all

lemma connectionAttempts_emitExit [simp]:
  "connectionAttempts (emitExit p w) = connectionAttempts w"
proof -
  have "connectionAttempts (emit (Exited p) (setProcess p cp w)) = connectionAttempts w" for cp
    by (simp add: connectionAttempts_def)
  then show ?thesis
    by (simp add: emitExit_def Let_def del: connectionAttempts_emit)
qed

lemma connectionAttempts_suspend_fold:
  "connectionAttempts (fold (\<lambda>p w'. if doomed (processes w' p) then emitExit p w' else w') ps w)
     = connectionAttempts w"
  by (induction ps arbitrary: w) simp_all

lemma connectionAttempts_suspend [simp]:
  "connectionAttempts (suspend w) = connectionAttempts w"
  by (simp add: suspend_def connectionAttempts_suspend_fold)


lemma verifyConnection_frame [simp]:
  "connectedClients (snd (verifyConnection env c w)) = connectedClients w"
  "nextCid (snd (verifyConnection env c w)) = nextCid w"
  "connectionAttempts (snd (verifyConnection env c w)) = connectionAttempts w"
  by (simp_all add: verifyConnection_def Let_def)






lemma connected_eval:
  "runningServers connected ''srv'' =
     Some \<lparr>process = 0, name = ''srv'', source_path = ''/srv'', deployed_at = 1\<rparr>"
  "connectedClients connected ''srv'' = Some 0"
  "processes connected 0 =
     \<lparr>killed = False, exited = False, doomed = False, ignoresSIGTERM = False,
      killThrows = False, exitListeners = [DeployExit ''srv'' False, TransportExit 0],
      errorListeners = [0]\<rparr>"
  "transport (clients connected 0) =
     Some \<lparr>server = \<lparr>process = 0, name = ''srv'', source_path = ''/srv'', deployed_at = 1\<rparr>,
           messageBuffer = [], isConnected = True, exitHandler = True,
           onclose = True, onerror = True, onmessage = True\<rparr>"
  "nextPid connected = 1" "nextCid connected = 1"
  "events connected = [Spawned 0 ''/srv'', Connecting 0 ''srv'', Requested 0 Initialize]"
  by (simp_all add: example_defs model_defs)


section \<open>Listing tools\<close>

lemma createNewClient_not_found:
  "runningServers w n = None \<Longrightarrow>
   fst (createNewClient env n w) =
     Inl (ToolCallError n ''connect'' (message env (ServerNotFoundError n)))"
  by (simp add: createNewClient_def getServerProcess_def)

lemma getClient_not_found:
  "runningServers w n = None \<Longrightarrow>
   fst (getClient env n w) =
     Inl (ToolCallError n ''connect'' (message env (ServerNotFoundError n)))"
  by (simp add: getClient_def getServerProcess_def createNewClient_not_found
      split: option.splits)

lemma listTools_error_shape:
  "fst (listTools env n w) = Inl e \<Longrightarrow> \<exists>m. e = ToolCallError n ''listTools'' m"
  by (auto simp: listTools_def Let_def split: prod.splits sum.splits)

text \<open>
  C4, as the code has it. Whatever fails in \<open>listTools\<close>, the caller receives a
  \<open>ToolCallError\<close> for the operation \<open>listTools\<close> on that server that carries the message
  of the error caught: the message of the error \<open>getClient\<close> raised when the acquisition
  of the client fails, the message of the rejection when the list call fails. With no
  process registered under the name, acquisition raises a \<open>ToolCallError\<close> for \<open>connect\<close>
  that carries the message of the \<open>ServerNotFoundError\<close>, and \<open>listTools\<close> raises a
  \<open>ToolCallError\<close> for \<open>listTools\<close> that carries the message of that error: the
  \<open>ServerNotFoundError\<close> itself never reaches the caller.
\<close>

theorem listTools_wraps_every_failure:
  "(\<forall>e w1. getClient env n w = (Inl e, w1) \<longrightarrow>
      fst (listTools env n w) = Inl (ToolCallError n ''listTools'' (message env e)))
   \<and> (\<forall>c w1 m. getClient env n w = (Inr c, w1) \<longrightarrow> listToolsReply env (events w1) c = Inl m \<longrightarrow>
      fst (listTools env n w) = Inl (ToolCallError n ''listTools'' m))
   \<and> (\<forall>e. fst (listTools env n w) = Inl e \<longrightarrow> (\<exists>m. e = ToolCallError n ''listTools'' m))
   \<and> (runningServers w n = None \<longrightarrow>
        fst (getClient env n w) =
          Inl (ToolCallError n ''connect'' (message env (ServerNotFoundError n)))
        \<and> fst (listTools env n w) =
          Inl (ToolCallError n ''listTools''
                (message env (ToolCallError n ''connect'' (message env (ServerNotFoundError n))))))"
proof (intro conjI allI impI)
  fix e w1
  assume "getClient env n w = (Inl e, w1)"
  then show "fst (listTools env n w) = Inl (ToolCallError n ''listTools'' (message env e))"
    by (simp add: listTools_def)
next
  fix c w1 m
  assume "getClient env n w = (Inr c, w1)" and "listToolsReply env (events w1) c = Inl m"
  then show "fst (listTools env n w) = Inl (ToolCallError n ''listTools'' m)"
    by (simp add: listTools_def Let_def)
next
  fix e
  assume "fst (listTools env n w) = Inl e"
  then show "\<exists>m. e = ToolCallError n ''listTools'' m"
    by (rule listTools_error_shape)
next
  assume "runningServers w n = None"
  then show "fst (getClient env n w) =
      Inl (ToolCallError n ''connect'' (message env (ServerNotFoundError n)))"
    by (rule getClient_not_found)
next
  assume "runningServers w n = None"
  then have "fst (getClient env n w) =
      Inl (ToolCallError n ''connect'' (message env (ServerNotFoundError n)))"
    by (rule getClient_not_found)
  then show "fst (listTools env n w) =
      Inl (ToolCallError n ''listTools''
            (message env (ToolCallError n ''connect'' (message env (ServerNotFoundError n)))))"
    by (cases "getClient env n w") (simp add: listTools_def)
qed

lemma rejecting_eval: "fst (getClient env_reject ''srv'' deployed) = Inr 0"
  by (simp add: env_reject_def example_defs model_defs)

theorem listTools_wraps_every_failure_witness:
  "runningServers world0 ''ghost'' = None
   \<and> fst (getClient env0 ''ghost'' world0) =
       Inl (ToolCallError ''ghost'' ''connect'' ''Server not found: ghost'')
   \<and> fst (listTools env0 ''ghost'' world0) =
       Inl (ToolCallError ''ghost'' ''listTools''
             ''connect failed on ghost: Server not found: ghost'')
   \<and> (\<exists>m. ToolCallError ''ghost'' ''listTools''
             ''connect failed on ghost: Server not found: ghost'' =
            ToolCallError ''ghost'' ''listTools'' m)
   \<and> fst (getClient env_reject ''srv'' deployed) = Inr 0
   \<and> listToolsReply env_reject (events (snd (getClient env_reject ''srv'' deployed))) 0 =
       Inl ''Method not found''
   \<and> fst (listTools env_reject ''srv'' deployed) =
       Inl (ToolCallError ''srv'' ''listTools'' ''Method not found'')"
proof -
  have a: "runningServers world0 ''ghost'' = None"
    by (simp add: world0_def)
  have m1: "message env0 (ServerNotFoundError ''ghost'') = ''Server not found: ghost''"
    by (simp add: message_def env0_def)
  have m2: "message env0 (ToolCallError ''ghost'' ''connect'' ''Server not found: ghost'') =
      ''connect failed on ghost: Server not found: ghost''"
    by (simp add: message_def env0_def)
  note th = listTools_wraps_every_failure [of env0 "''ghost''" world0]
  have b: "fst (getClient env0 ''ghost'' world0) =
       Inl (ToolCallError ''ghost'' ''connect'' ''Server not found: ghost'')"
    using th a m1 by simp
  have g: "getClient env0 ''ghost'' world0 =
       (Inl (ToolCallError ''ghost'' ''connect'' ''Server not found: ghost''),
        snd (getClient env0 ''ghost'' world0))"
    by (rule prod_eqI) (simp_all add: b)
  have c: "fst (listTools env0 ''ghost'' world0) =
       Inl (ToolCallError ''ghost'' ''listTools''
             ''connect failed on ghost: Server not found: ghost'')"
    using conjunct1 [OF th, THEN spec, THEN spec, THEN mp, OF g] m2 by simp
  note th' = listTools_wraps_every_failure [of env_reject "''srv''" deployed]
  have g': "getClient env_reject ''srv'' deployed =
       (Inr 0, snd (getClient env_reject ''srv'' deployed))"
    by (rule prod_eqI) (simp_all add: rejecting_eval)
  have r: "listToolsReply env_reject (events (snd (getClient env_reject ''srv'' deployed))) 0 =
       Inl ''Method not found''"
    by (simp add: env_reject_def)
  have d: "fst (listTools env_reject ''srv'' deployed) =
       Inl (ToolCallError ''srv'' ''listTools'' ''Method not found'')"
    using conjunct1 [OF conjunct2 [OF th'], THEN spec, THEN spec, THEN spec, THEN mp, THEN mp,
        OF g' r] .
  show ?thesis
    using a b c d r rejecting_eval by simp
qed

text \<open>
  The claim as stated fails: with no process registered under \<open>ghost\<close>, \<open>getServerProcess\<close>
  raises \<open>ServerNotFoundError\<close>, and the caller of \<open>listTools\<close> receives a \<open>ToolCallError\<close>.
\<close>

theorem listTools_not_found_counterexample:
  "getServerProcess ''ghost'' world0 = Inl (ServerNotFoundError ''ghost'')
   \<and> fst (listTools env0 ''ghost'' world0) =
       Inl (ToolCallError ''ghost'' ''listTools''
             ''connect failed on ghost: Server not found: ghost'')
   \<and> fst (listTools env0 ''ghost'' world0) \<noteq> Inl (ServerNotFoundError ''ghost'')"
  by (simp add: example_defs model_defs listTools_def)

section \<open>Smoke-test summaries\<close>

lemma runTestCase_rname: "rname (fst (runTestCase env n test w)) = tname test"
  by (simp add: runTestCase_def Let_def split: prod.splits option.splits sum.splits)

lemma runEach_names:
  "map rname (fst (runEach env n tests w)) = map tname tests"
proof (induction tests arbitrary: w)
  case Nil
  show ?case by simp
next
  case (Cons test tests)
  obtain r w1 where a: "runTestCase env n test w = (r, w1)"
    by (cases "runTestCase env n test w")
  obtain rs w2 where b: "runEach env n tests w1 = (rs, w2)"
    by (cases "runEach env n tests w1")
  have "rname r = tname test"
    using runTestCase_rname [of env n test w] a by simp
  moreover have "map rname rs = map tname tests"
    using Cons.IH [of w1] b by simp
  ultimately show ?case
    using a b by simp
qed

lemma runEach_length: "length (fst (runEach env n tests w)) = length tests"
  using runEach_names [of env n tests w] by (metis length_map)

lemma runTests_setup_failure:
  assumes "listTools env n w = (Inl e, w1)" and "fst (runTests env n w) = Inr r"
  shows "summary r = \<lparr>stotal = 1, spassed = 0, sfailed = 1,
           sduration_ms = now env (events w1) - now env (events w)\<rparr>"
  using assms
  by (auto simp: runTests_def Let_def split: sum.splits)

lemma runTests_setup_success:
  assumes "listTools env n w = (Inr tools, w1)" and "fst (runTests env n w) = Inr r"
  shows "results r = fst (runEach env n (map basicTest tools) w1)
     \<and> stotal (summary r) = length (results r)
     \<and> spassed (summary r) = length (filter passed (results r))
     \<and> sfailed (summary r) = length (results r) - length (filter passed (results r))"
  using assms
  by (auto simp: runTests_def Let_def split: sum.splits prod.splits)

text \<open>
  C6, as the code has it. In every result of \<open>runTests\<close> the summary's total is the sum of
  its passed and failed counts. When the tool listing succeeds, the tests are one per
  entry of the listing, in the listing's order, run one after the other, and the total
  is the number of entries, duplicates counted; it is the number of distinct tools when
  no name is listed twice.
\<close>

theorem runTests_summary:
  assumes "fst (runTests env n w) = Inr r"
  shows "stotal (summary r) = spassed (summary r) + sfailed (summary r)
    \<and> (\<forall>tools w1. listTools env n w = (Inr tools, w1) \<longrightarrow>
          results r = fst (runEach env n (map basicTest tools) w1)
          \<and> map rname (results r) = map (\<lambda>t. ''List '' @ t @ '' schema'') tools
          \<and> stotal (summary r) = length tools
          \<and> (distinct tools \<longrightarrow> stotal (summary r) = card (set tools)))"
proof (cases "listTools env n w")
  case (Pair res w1)
  show ?thesis
  proof (cases res)
    case (Inl e)
    with Pair assms show ?thesis
      by (simp add: runTests_setup_failure)
  next
    case (Inr tools)
    note s = runTests_setup_success [OF Pair [unfolded Inr] assms]
    have names: "map rname (results r) = map (\<lambda>t. ''List '' @ t @ '' schema'') tools"
      using s runEach_names [of env n "map basicTest tools" w1]
      by (simp add: basicTest_def comp_def)
    have len: "length (results r) = length tools"
      using s runEach_length [of env n "map basicTest tools" w1] by simp
    have "length (filter passed (results r)) \<le> length (results r)"
      by (rule length_filter_le)
    then have sum: "stotal (summary r) = spassed (summary r) + sfailed (summary r)"
      using s by simp
    have res: "results r = fst (runEach env n (map basicTest tools) w1)"
      using s by (rule conjunct1)
    have tot: "stotal (summary r) = length tools"
      using s len by simp
    have crd: "distinct tools \<longrightarrow> stotal (summary r) = card (set tools)"
      using tot by (simp add: distinct_card)
    have "\<forall>tools' w1'. listTools env n w = (Inr tools', w1') \<longrightarrow>
          results r = fst (runEach env n (map basicTest tools') w1')
          \<and> map rname (results r) = map (\<lambda>t. ''List '' @ t @ '' schema'') tools'
          \<and> stotal (summary r) = length tools'
          \<and> (distinct tools' \<longrightarrow> stotal (summary r) = card (set tools'))"
    proof (intro allI impI)
      fix tools' w1'
      assume "listTools env n w = (Inr tools', w1')"
      with Pair Inr have eq: "tools' = tools" "w1' = w1"
        by simp_all
      show "results r = fst (runEach env n (map basicTest tools') w1')
          \<and> map rname (results r) = map (\<lambda>t. ''List '' @ t @ '' schema'') tools'
          \<and> stotal (summary r) = length tools'
          \<and> (distinct tools' \<longrightarrow> stotal (summary r) = card (set tools'))"
        unfolding eq by (intro conjI res names tot crd)
    qed
    with sum show ?thesis
      by (rule conjI)
  qed
qed


lemmas test_defs = runTests_def runTestCase_def callTool_def listTools_def
  basicTest_def truthy_def extractResult_def

lemma runTests_eval:
  "fst (runTests env0 ''srv'' deployed) =
     Inr \<lparr>results = [\<lparr>rname = ''List echo schema'', passed = True, rmessage = ''Test passed'',
                       rduration_ms = 2, rerror = None\<rparr>],
          summary = \<lparr>stotal = 1, spassed = 1, sfailed = 0, sduration_ms = 5\<rparr>\<rparr>"
  by (simp add: test_defs example_defs model_defs)


lemma listTools_eval: "fst (listTools env0 ''srv'' deployed) = Inr [''echo'']"
  by (simp add: test_defs example_defs model_defs)

theorem runTests_summary_witness:
  "fst (runTests env0 ''srv'' deployed) =
     Inr \<lparr>results = [\<lparr>rname = ''List echo schema'', passed = True, rmessage = ''Test passed'',
                       rduration_ms = 2, rerror = None\<rparr>],
          summary = \<lparr>stotal = 1, spassed = 1, sfailed = 0, sduration_ms = 5\<rparr>\<rparr>
   \<and> fst (listTools env0 ''srv'' deployed) = Inr [''echo'']
   \<and> distinct [''echo'']
   \<and> (1::nat) = 1 + 0
   \<and> (1::nat) = length [''echo'']
   \<and> (1::nat) = card (set [''echo''])"
proof -
  let ?r = "\<lparr>results = [\<lparr>rname = ''List echo schema'', passed = True, rmessage = ''Test passed'',
                       rduration_ms = 2, rerror = None\<rparr>],
          summary = \<lparr>stotal = 1, spassed = 1, sfailed = 0, sduration_ms = 5\<rparr>\<rparr>"
  have a: "fst (runTests env0 ''srv'' deployed) = Inr ?r"
    by (rule runTests_eval)
  have b: "listTools env0 ''srv'' deployed = (Inr [''echo''], snd (listTools env0 ''srv'' deployed))"
    by (rule prod_eqI) (simp_all add: listTools_eval)
  note th = runTests_summary [OF a]
  have t1: "stotal (summary ?r) = spassed (summary ?r) + sfailed (summary ?r)"
    by (rule conjunct1 [OF th])
  have t2: "stotal (summary ?r) = length [''echo'']
      \<and> (distinct [''echo''] \<longrightarrow> stotal (summary ?r) = card (set [''echo'']))"
    using conjunct2 [OF th, THEN spec, THEN spec, THEN mp, OF b] by blast
  show ?thesis
    using a listTools_eval t1 t2 by simp
qed

text \<open>
  The claim as stated fails for a server that lists a tool twice: two tests run and the
  total is 2, while one distinct tool is listed.
\<close>

theorem runTests_distinct_tools_counterexample:
  "fst (listTools env_dup ''srv'' deployed) = Inr [''echo'', ''echo'']
   \<and> card (set [''echo'', ''echo'']) = 1
   \<and> fst (runTests env_dup ''srv'' deployed) =
       Inr \<lparr>results = [\<lparr>rname = ''List echo schema'', passed = True, rmessage = ''Test passed'',
                         rduration_ms = 2, rerror = None\<rparr>,
                        \<lparr>rname = ''List echo schema'', passed = True, rmessage = ''Test passed'',
                         rduration_ms = 2, rerror = None\<rparr>],
            summary = \<lparr>stotal = 2, spassed = 2, sfailed = 0, sduration_ms = 7\<rparr>\<rparr>"
  by (simp add: env_dup_def test_defs example_defs model_defs)

section \<open>Rebuilding after a failed health check\<close>

lemma suspend_fold_quiet:
  "\<forall>p \<in> set ps. \<not> doomed (processes w p) \<Longrightarrow>
   fold (\<lambda>p w'. if doomed (processes w' p) then emitExit p w' else w') ps w = w"
  by (induction ps) simp_all

lemma suspend_quiet:
  "quiet w \<Longrightarrow> suspend w = w"
  by (simp add: suspend_def quiet_def suspend_fold_quiet)

lemma quiet_emit [simp]: "quiet (emit e w) = quiet w"
  by (simp add: quiet_def)

lemma connectionAttempts_kill [simp]:
  "connectionAttempts (snd (kill p sig w)) = connectionAttempts w"
  by (simp add: kill_def Let_def connectionAttempts_def)

lemma connectionAttempts_transport_close [simp]:
  "connectionAttempts (transport_close c w) = connectionAttempts w"
proof (cases "transport (clients w c)")
  case None
  then show ?thesis by (simp add: transport_close_def)
next
  case (Some t)
  have a: "connectionAttempts (setProcess p cp w') = connectionAttempts w'" for p cp w'
    by (simp add: connectionAttempts_def)
  have b: "connectionAttempts (setTransport c' t' w') = connectionAttempts w'" for c' t' w'
    by (simp add: connectionAttempts_def)
  show ?thesis
    using Some by (simp add: transport_close_def Let_def a b)
qed

lemma connectionAttempts_removeClientFromCache [simp]:
  "connectionAttempts (removeClientFromCache n w) = connectionAttempts w"
proof -
  have a: "connectionAttempts (w'\<lparr>connectedClients := m\<rparr>) = connectionAttempts w'" for w' m
    by (simp add: connectionAttempts_def)
  show ?thesis
    by (simp add: removeClientFromCache_def Let_def a split: option.splits)
qed

lemma connectionAttempts_client_connect [simp]:
  "connectionAttempts (snd (client_connect env c t w)) = connectionAttempts w"
proof -
  have a: "connectionAttempts (setProcess p cp w') = connectionAttempts w'" for p cp w'
    by (simp add: connectionAttempts_def)
  have b: "connectionAttempts (setTransport c' t' w') = connectionAttempts w'" for c' t' w'
    by (simp add: connectionAttempts_def)
  show ?thesis
    by (simp add: client_connect_def transport_start_def Let_def a b
        split: option.splits prod.splits sum.splits)
qed

lemma connectionAttempts_createNewClient:
  "connectionAttempts (snd (createNewClient env n w)) =
     connectionAttempts w + (if runningServers w n = None then 0 else 1)"
proof (cases "runningServers w n")
  case None
  then show ?thesis
    by (simp add: createNewClient_def getServerProcess_def)
next
  case (Some srv)
  let ?w1 = "emit (Connecting (nextCid w) n)
               (w\<lparr>clients := (clients w)(nextCid w := \<lparr>transport = None\<rparr>),
                  nextCid := Suc (nextCid w)\<rparr>)"
  have a: "connectionAttempts ?w1 = connectionAttempts w + 1"
    by (simp add: connectionAttempts_def emit_def)
  have b: "connectionAttempts (snd (client_connect env (nextCid w) (new_transport srv) ?w1)) =
      connectionAttempts w + 1"
    using a by simp
  have c: "connectionAttempts (w'\<lparr>connectedClients := m\<rparr>) = connectionAttempts w'" for w' m
    by (simp add: connectionAttempts_def)
  obtain res w2 where cc: "client_connect env (nextCid w) (new_transport srv) ?w1 = (res, w2)"
    by (cases "client_connect env (nextCid w) (new_transport srv) ?w1")
  have d: "connectionAttempts w2 = connectionAttempts w + 1"
    using b cc by simp
  show ?thesis
    using Some cc d
    by (cases res) (simp_all add: createNewClient_def getServerProcess_def Let_def c)
qed

text \<open>
  After a failed health check \<open>getClient\<close> evicts the cached client and calls
  \<open>createNewClient\<close> once: at most one connection is attempted, and exactly one when the
  name is still registered after the wait.
\<close>

lemma getClient_unhealthy_one_attempt:
  assumes "connectedClients w n = Some c" and "runningServers w n = Some srv"
    and "\<not> killed (processes w (process srv))"
    and "verifyConnection env c w = (False, w1)"
  shows "getClient env n w = createNewClient env n (removeClientFromCache n w1)"
    and "connectionAttempts (snd (getClient env n w)) =
         connectionAttempts w + (if runningServers w1 n = None then 0 else 1)"
proof -
  show g: "getClient env n w = createNewClient env n (removeClientFromCache n w1)"
    using assms by (simp add: getClient_def getServerProcess_def)
  have "connectionAttempts w1 = connectionAttempts w"
    using verifyConnection_frame(3) [of env c w] assms(4) by simp
  then show "connectionAttempts (snd (getClient env n w)) =
         connectionAttempts w + (if runningServers w1 n = None then 0 else 1)"
    by (simp add: g connectionAttempts_createNewClient)
qed

text \<open>
  And that one attempt is rejected whenever the cached client's transport is bound to
  the process registered under the name, that process is running, and no exit is
  pending: closing the evicted transport marks the process killed, and \<open>start\<close> of the new
  transport refuses a killed process.
\<close>

lemma getClient_unhealthy_rejected:
  assumes "connectedClients w n = Some c" and "runningServers w n = Some srv"
    and "transport (clients w c) = Some t" and "process (server t) = process srv"
    and "\<not> killed (processes w (process srv))" and "\<not> exited (processes w (process srv))"
    and "\<not> killThrows (processes w (process srv))"
    and "quiet w"
    and "fst (verifyConnection env c w) = False"
  shows "fst (getClient env n w) =
     Inl (ToolCallError n ''connect'' (''Server process for '' @ name srv @ '' is not active''))"
proof -
  let ?w1 = "emit (Requested c ListTools) w"
  have v: "verifyConnection env c w = (False, ?w1)"
    using assms(8,9) by (simp add: verifyConnection_def Let_def suspend_quiet)
  have g: "getClient env n w = createNewClient env n (removeClientFromCache n ?w1)"
    using getClient_unhealthy_one_attempt(1) [OF assms(1,2,5) v] .
  let ?w2 = "removeClientFromCache n ?w1"
  have k: "killed (processes ?w2 (process srv))"
    using assms(1,3,4,5,6,7)
    by (simp add: removeClientFromCache_def transport_close_def kill_def Let_def)
  have r: "runningServers ?w2 n = Some srv"
    using assms(2) by simp
  show ?thesis
    using k r
    by (simp add: g createNewClient_def getServerProcess_def client_connect_def
        transport_start_def new_transport_def message_def Let_def)
qed

text \<open>
  C5 at a failing input. Client 0 is cached for \<open>srv\<close>, its process is registered and
  running, and the health check times out. \<open>getClient\<close> evicts the entry and makes one
  attempt to connect a new client; but closing the evicted client's transport has sent
  SIGTERM to the server's process and marked it killed, so the new transport's \<open>start\<close>
  rejects and the caller receives a \<open>ToolCallError\<close>.
\<close>

theorem getClient_unhealthy_rebuild_fails:
  "connectedClients connected ''srv'' = Some 0
   \<and> \<not> killed (processes connected 0)
   \<and> \<not> exited (processes connected 0)
   \<and> fst (verifyConnection env_slow 0 connected) = False
   \<and> fst (getClient env_slow ''srv'' connected) =
       Inl (ToolCallError ''srv'' ''connect'' ''Server process for srv is not active'')
   \<and> connectedClients (snd (getClient env_slow ''srv'' connected)) ''srv'' = None
   \<and> connectionAttempts (snd (getClient env_slow ''srv'' connected)) =
       connectionAttempts connected + 1
   \<and> killed (processes (snd (getClient env_slow ''srv'' connected)) 0)
   \<and> events (snd (getClient env_slow ''srv'' connected)) =
       events connected @
       [Requested 0 ListTools, Signalled 0 SIGTERM, CloseNotified 0, Connecting 1 ''srv'']"
  by (simp add: connectionAttempts_def example_defs model_defs)

section \<open>Redeploying under the same name\<close>

lemma emitExit_other:
  "p \<noteq> q \<Longrightarrow> processes (emitExit q w) p = processes w p"
  by (simp add: emitExit_def Let_def)

lemma suspend_fold_keeps:
  "\<not> doomed (processes w p) \<Longrightarrow>
   processes (fold (\<lambda>q w'. if doomed (processes w' q) then emitExit q w' else w') ps w) p
     = processes w p"
proof (induction ps arbitrary: w)
  case Nil
  show ?case by simp
next
  case (Cons q ps)
  let ?w' = "if doomed (processes w q) then emitExit q w else w"
  have same: "processes ?w' p = processes w p"
    using Cons.prems by (cases "p = q") (auto simp: emitExit_other)
  then have "\<not> doomed (processes ?w' p)"
    using Cons.prems by simp
  from Cons.IH [OF this] same show ?case
    by simp
qed

lemma suspend_keeps:
  "\<not> doomed (processes w p) \<Longrightarrow> processes (suspend w) p = processes w p"
  by (simp add: suspend_def suspend_fold_keeps)

text \<open>
  \<open>terminateProcess\<close> on a running program that ignores SIGTERM: the process is marked
  killed by the SIGTERM, so the timer's callback sends nothing, and the process is still
  running when \<open>terminateProcess\<close> returns.
\<close>

lemma terminateProcess_ignored:
  assumes "runningServers w n = Some srv"
    and "\<not> exited (processes w (process srv))" and "\<not> doomed (processes w (process srv))"
    and "ignoresSIGTERM (processes w (process srv))"
    and "\<not> killThrows (processes w (process srv))"
  shows "processes (terminateProcess n w) (process srv) =
     (processes w (process srv))\<lparr>killed := True\<rparr>"
proof -
  let ?p = "process srv"
  let ?cp = "(processes w ?p)\<lparr>killed := True, doomed := False\<rparr>"
  let ?w1 = "setProcess ?p ?cp (emit (Signalled ?p SIGTERM) w)"
  let ?w2 = "?w1\<lparr>runningServers := (runningServers ?w1)(n := None)\<rparr>"
  have k: "kill ?p SIGTERM w = (Inr True, ?w1)"
    using assms(2,3,4,5) by (simp add: kill_def Let_def)
  have p2: "processes ?w2 ?p = ?cp"
    by simp
  have p3: "processes (suspend ?w2) ?p = ?cp"
    using suspend_keeps [of ?w2 ?p] p2 by simp
  have t: "terminateProcess n w = suspend (suspend ?w2)"
    using assms(1) k p2 p3
    by (simp add: terminateProcess_def getServerProcess_def Let_def)
  have "processes (suspend (suspend ?w2)) ?p = ?cp"
    using suspend_keeps [of "suspend ?w2" ?p] p3 by simp
  moreover have "?cp = (processes w ?p)\<lparr>killed := True\<rparr>"
    using assms(3) by simp
  ultimately show ?thesis
    using t by simp
qed

text \<open>
  C3 at a failing input. \<open>srv\<close> runs a program that ignores SIGTERM and is deployed a
  second time. \<open>terminateProcess\<close> sends SIGTERM, which marks the process object killed;
  when the timer fires, the test of \<open>killed\<close> finds it set and no SIGKILL is sent. The
  second process is spawned and the second deploy returns while the first process has
  not exited.
\<close>

theorem deployServer_twice_first_still_running:
  "map_option process (runningServers stubborn ''srv'') = Some 0
   \<and> ignoresSIGTERM (processes stubborn 0)
   \<and> fst (deployServer env_stubborn ''srv'' ''/srv2'' None False stubborn) =
       Inr \<lparr>dname = ''srv'', did = ''mcp-test-srv'', dstatus = ''running''\<rparr>
   \<and> events (snd (deployServer env_stubborn ''srv'' ''/srv2'' None False stubborn)) =
       [Spawned 0 ''/srv'', Signalled 0 SIGTERM, Spawned 1 ''/srv2'']
   \<and> killed (processes (snd (deployServer env_stubborn ''srv'' ''/srv2'' None False stubborn)) 0)
   \<and> \<not> exited (processes (snd (deployServer env_stubborn ''srv'' ''/srv2'' None False stubborn)) 0)
   \<and> \<not> exited (processes (snd (deployServer env_stubborn ''srv'' ''/srv2'' None False stubborn)) 1)
   \<and> map_option process
         (runningServers (snd (deployServer env_stubborn ''srv'' ''/srv2'' None False stubborn)) ''srv'') =
       Some 1"
  by (simp add: example_defs model_defs)

text \<open>The same redeployment of a program that terminates on SIGTERM.\<close>

lemma deployServer_twice_cooperative:
  "fst (deployServer env0 ''srv'' ''/srv2'' None False deployed) =
       Inr \<lparr>dname = ''srv'', did = ''mcp-test-srv'', dstatus = ''running''\<rparr>
   \<and> events (snd (deployServer env0 ''srv'' ''/srv2'' None False deployed)) =
       [Spawned 0 ''/srv'', Signalled 0 SIGTERM, Exited 0, Spawned 1 ''/srv2'']
   \<and> exited (processes (snd (deployServer env0 ''srv'' ''/srv2'' None False deployed)) 0)
   \<and> map_option process
         (runningServers (snd (deployServer env0 ''srv'' ''/srv2'' None False deployed)) ''srv'') =
       Some 1"
  by (simp add: example_defs model_defs)

section \<open>Closing a transport\<close>

lemma count_list_rev: "count_list (rev xs) y = count_list xs y"
  by (induction xs) (simp_all add: count_list_append)

lemma count_list_remove1: "count_list (remove1 x xs) x = count_list xs x - 1"
  by (induction xs) auto

lemma count_list_removeListener:
  "count_list (removeListener l ls) l = count_list ls l - 1"
  by (simp add: removeListener_def count_list_rev count_list_remove1)

lemma closeCount_emit:
  "closeCount c (emit e w) = closeCount c w + (if e = CloseNotified c then 1 else 0)"
  by (simp add: closeCount_def emit_def count_list_append)

lemma closeCount_setProcess [simp]: "closeCount c (setProcess p cp w) = closeCount c w"
  by (simp add: closeCount_def)

lemma closeCount_setTransport [simp]: "closeCount c (setTransport c' t w) = closeCount c w"
  by (simp add: closeCount_def)

lemma closeCount_kill [simp]: "closeCount c (snd (kill p sig w)) = closeCount c w"
  by (simp add: kill_def Let_def closeCount_emit)

lemma kill_process:
  "exitListeners (processes (snd (kill p sig w)) q) = exitListeners (processes w q)"
  "exited (processes (snd (kill p sig w)) q) = exited (processes w q)"
  by (simp_all add: kill_def Let_def)

lemma transport_close_step:
  assumes "started c p w"
  shows "started c p (transport_close c w)"
    and "closeCount c (transport_close c w) = closeCount c w + 1"
    and "pendingExit c p (transport_close c w) = pendingExit c p w - 1"
proof -
  from assms obtain t where t: "transport (clients w c) = Some t" "onclose t" "exitHandler t"
      "process (server t) = p"
    by (auto simp: started_def split: option.splits)
  show "started c p (transport_close c w)"
    using t by (simp add: transport_close_def started_def Let_def)
  show "closeCount c (transport_close c w) = closeCount c w + 1"
    using t by (simp add: transport_close_def Let_def closeCount_emit)
  show "pendingExit c p (transport_close c w) = pendingExit c p w - 1"
    using t by (simp add: transport_close_def Let_def pendingExit_def kill_process
        count_list_removeListener)
qed

lemma transportExitHandler_step:
  assumes "started c p w"
  shows "started c p (transportExitHandler c' w)"
    and "closeCount c (transportExitHandler c' w) = closeCount c w + (if c' = c then 1 else 0)"
proof -
  from assms obtain t where t: "transport (clients w c) = Some t" "onclose t" "exitHandler t"
      "process (server t) = p"
    by (auto simp: started_def split: option.splits)
  show "started c p (transportExitHandler c' w)"
    using t by (auto simp: transportExitHandler_def started_def Let_def split: option.splits)
  show "closeCount c (transportExitHandler c' w) = closeCount c w + (if c' = c then 1 else 0)"
    using t by (auto simp: transportExitHandler_def Let_def closeCount_emit split: option.splits)
qed

lemma runExitListener_step:
  assumes "started c p w"
  shows "started c p (runExitListener l w)"
    and "closeCount c (runExitListener l w) =
         closeCount c w + (if l = TransportExit c then 1 else 0)"
proof -
  show "started c p (runExitListener l w)"
  proof (cases l)
    case (DeployExit n persistent)
    with assms show ?thesis by (simp add: started_def)
  next
    case (TransportExit c')
    with transportExitHandler_step(1) [OF assms, of c'] show ?thesis by simp
  qed
  show "closeCount c (runExitListener l w) =
         closeCount c w + (if l = TransportExit c then 1 else 0)"
  proof (cases l)
    case (DeployExit n persistent)
    then show ?thesis by (simp add: closeCount_def)
  next
    case (TransportExit c')
    with transportExitHandler_step(2) [OF assms, of c'] show ?thesis by simp
  qed
qed

lemma fold_runExitListener_step:
  "started c p w \<Longrightarrow>
   started c p (fold runExitListener ls w)
   \<and> closeCount c (fold runExitListener ls w) = closeCount c w + count_list ls (TransportExit c)"
proof (induction ls arbitrary: w)
  case Nil
  then show ?case by simp
next
  case (Cons l ls)
  have s: "started c p (runExitListener l w)"
    using Cons.prems by (rule runExitListener_step)
  show ?case
    using Cons.IH [OF s] runExitListener_step(2) [OF Cons.prems, of l] by simp
qed

lemma emitExit_step:
  assumes "started c p w"
  shows "started c p (emitExit p w)"
    and "closeCount c (emitExit p w) = closeCount c w + pendingExit c p w"
    and "pendingExit c p (emitExit p w) = 0"
proof -
  let ?w0 = "emit (Exited p) (setProcess p ((processes w p)\<lparr>exited := True\<rparr>) w)"
  have s0: "started c p ?w0"
    using assms by (simp add: started_def)
  note f = fold_runExitListener_step [OF s0, of "exitListeners (processes w p)"]
  show "started c p (emitExit p w)"
    using assms f by (simp add: emitExit_def Let_def)
  show "closeCount c (emitExit p w) = closeCount c w + pendingExit c p w"
    using f by (simp add: emitExit_def Let_def pendingExit_def closeCount_emit)
  show "pendingExit c p (emitExit p w) = 0"
    by (simp add: emitExit_def Let_def pendingExit_def)
qed

lemma transportErrorHandler_step:
  assumes "started c p w"
  shows "started c p (transportErrorHandler err c' w)"
    and "closeCount c (transportErrorHandler err c' w) = closeCount c w"
    and "processes (transportErrorHandler err c' w) = processes w"
proof -
  show "started c p (transportErrorHandler err c' w)"
    using assms
    by (auto simp: transportErrorHandler_def started_def Let_def split: option.splits)
  show "closeCount c (transportErrorHandler err c' w) = closeCount c w"
    by (simp add: transportErrorHandler_def Let_def closeCount_emit split: option.splits)
  show "processes (transportErrorHandler err c' w) = processes w"
    by (simp add: transportErrorHandler_def Let_def split: option.splits)
qed

lemma fold_transportErrorHandler_step:
  "started c p w \<Longrightarrow>
   started c p (fold (transportErrorHandler err) cs w)
   \<and> closeCount c (fold (transportErrorHandler err) cs w) = closeCount c w
   \<and> processes (fold (transportErrorHandler err) cs w) = processes w"
proof (induction cs arbitrary: w)
  case Nil
  then show ?case by simp
next
  case (Cons c' cs)
  note st = transportErrorHandler_step [OF Cons.prems, of err c']
  show ?case
    using Cons.IH [OF st(1)] st(2,3) by simp
qed

lemma emitError_step:
  assumes "started c p w"
  shows "started c p (emitError q err w)"
    and "closeCount c (emitError q err w) = closeCount c w"
    and "pendingExit c p (emitError q err w) = pendingExit c p w"
  using fold_transportErrorHandler_step [OF assms, of err "errorListeners (processes w q)"]
  by (simp_all add: emitError_def pendingExit_def)

lemma fire_count:
  assumes "started c p w" and "pendingExit c p w \<le> 1"
  shows "closeCount c (fold (fire c) ts w) =
     closeCount c w + count_list ts CallClose
     + (if ProcessExit \<in> set (takeWhile (\<lambda>x. x \<noteq> CallClose) ts) then pendingExit c p w else 0)"
  using assms
proof (induction ts arbitrary: w)
  case Nil
  then show ?case by simp
next
  case (Cons tr ts)
  from Cons.prems(1) obtain t where t: "transport (clients w c) = Some t"
      "process (server t) = p"
    by (auto simp: started_def split: option.splits)
  show ?case
  proof (cases tr)
    case CallClose
    note st = transport_close_step [OF Cons.prems(1)]
    have le: "pendingExit c p (transport_close c w) \<le> 1"
      using st(3) Cons.prems(2) by simp
    have z: "pendingExit c p (transport_close c w) = 0"
      using st(3) Cons.prems(2) by simp
    show ?thesis
      using Cons.IH [OF st(1) le] st(2) z CallClose by simp
  next
    case ProcessExit
    note st = emitExit_step [OF Cons.prems(1)]
    have le: "pendingExit c p (emitExit p w) \<le> 1"
      using st(3) by simp
    show ?thesis
      using Cons.IH [OF st(1) le] st(2,3) ProcessExit t by simp
  next
    case (ProcessError err)
    note st = emitError_step [OF Cons.prems(1), of p err]
    have le: "pendingExit c p (emitError p err w) \<le> 1"
      using st(3) Cons.prems(2) by simp
    show ?thesis
      using Cons.IH [OF st(1) le] st(2,3) ProcessError t by simp
  qed
qed


text \<open>
  C2, as the code has it. On a started transport whose \<open>onclose\<close> slot is set, over any
  sequence of \<open>close()\<close> calls, exits and errors of the process, \<open>onclose\<close> is called once
  for every \<open>close()\<close> call, and once more when the exit of the process is observed
  before the first \<open>close()\<close>: \<open>close()\<close> removes the exit listener, so an exit observed
  after it calls \<open>onclose\<close> no more, and an error of the process never calls it. Every
  \<open>close()\<close> leaves the transport disconnected.
\<close>

theorem onclose_once_per_close:
  assumes "transport (clients w c) = Some t" and "onclose t" and "exitHandler t"
    and "\<not> exited (processes w (process (server t)))"
    and "count_list (exitListeners (processes w (process (server t)))) (TransportExit c) = 1"
  shows "closeCount c (fold (fire c) ts w) =
       closeCount c w + count_list ts CallClose
       + (if ProcessExit \<in> set (takeWhile (\<lambda>x. x \<noteq> CallClose) ts) then 1 else 0)
     \<and> map_option isConnected (transport (clients (transport_close c w) c)) = Some False"
proof -
  have s: "started c (process (server t)) w"
    using assms(1,2,3) by (simp add: started_def)
  have p: "pendingExit c (process (server t)) w = 1"
    using assms(4,5) by (simp add: pendingExit_def)
  have "closeCount c (fold (fire c) ts w) =
       closeCount c w + count_list ts CallClose
       + (if ProcessExit \<in> set (takeWhile (\<lambda>x. x \<noteq> CallClose) ts) then 1 else 0)"
    using fire_count [OF s, of ts] p by simp
  moreover have "map_option isConnected (transport (clients (transport_close c w) c)) = Some False"
    using assms(1) by (simp add: transport_close_def Let_def)
  ultimately show ?thesis
    by (rule conjI)
qed

lemma connected_started:
  "transport (clients connected 0) =
     Some \<lparr>server = \<lparr>process = 0, name = ''srv'', source_path = ''/srv'', deployed_at = 1\<rparr>,
           messageBuffer = [], isConnected = True, exitHandler = True,
           onclose = True, onerror = True, onmessage = True\<rparr>"
  "closeCount 0 connected = 0"
  by (simp_all add: connected_eval closeCount_def)

theorem onclose_once_per_close_witness:
  "transport (clients connected 0) =
     Some \<lparr>server = \<lparr>process = 0, name = ''srv'', source_path = ''/srv'', deployed_at = 1\<rparr>,
           messageBuffer = [], isConnected = True, exitHandler = True,
           onclose = True, onerror = True, onmessage = True\<rparr>
   \<and> \<not> exited (processes connected 0)
   \<and> count_list (exitListeners (processes connected 0)) (TransportExit 0) = 1
   \<and> closeCount 0 (fold (fire 0) [ProcessError ''EPIPE'', CallClose, ProcessExit] connected) = 1
   \<and> map_option isConnected (transport (clients (transport_close 0 connected) 0)) = Some False"
proof -
  let ?t = "\<lparr>server = \<lparr>process = 0, name = ''srv'', source_path = ''/srv'', deployed_at = 1\<rparr>,
           messageBuffer = [], isConnected = True, exitHandler = True,
           onclose = True, onerror = True, onmessage = True\<rparr>"
  have a: "transport (clients connected 0) = Some ?t"
    by (rule connected_started)
  have b: "onclose ?t" and c: "exitHandler ?t"
    by simp_all
  have d: "\<not> exited (processes connected (process (server ?t)))"
    by (simp add: connected_eval)
  have e: "count_list (exitListeners (processes connected (process (server ?t)))) (TransportExit 0) = 1"
    by (simp add: connected_eval)
  from onclose_once_per_close [OF a b c d e, of "[ProcessError ''EPIPE'', CallClose, ProcessExit]"]
    a d e connected_started(2)
  show ?thesis by simp
qed

text \<open>
  The claim as stated fails: two calls of \<open>close()\<close> call \<open>onclose\<close> twice, and so does a
  \<open>close()\<close> after the exit of the process has been observed.
\<close>

theorem onclose_twice_counterexample:
  "closeCount 0 connected = 0
   \<and> closeCount 0 (fold (fire 0) [CallClose, CallClose] connected) = 2
   \<and> closeCount 0 (fold (fire 0) [ProcessExit, CallClose] connected) = 2"
proof -
  have s: "started 0 0 connected"
    by (simp add: started_def connected_eval)
  have p: "pendingExit 0 0 connected = 1"
    by (simp add: pendingExit_def connected_eval)
  show ?thesis
    using fire_count [OF s, of "[CallClose, CallClose]"]
      fire_count [OF s, of "[ProcessExit, CallClose]"] p connected_started(2)
    by simp
qed

end
